theory Spec2Isabelle
  imports Complex_Main "HOL-Library.Multiset" "HOL-Library.AList"
begin

section \<open>Go values and types as seen through package reflect\<close>

text \<open>
  The client works on \<^verbatim>\<open>reflect.Type\<close> and \<^verbatim>\<open>reflect.Value\<close>. A type is a tree; a struct
  type lists its fields in declaration order, each with its name, its type and its tag,
  the tag being kept as the key/value pairs that \<^verbatim>\<open>StructTag.Get\<close> reads.
  \<^verbatim>\<open>TBytes\<close> is \<^verbatim>\<open>[]byte\<close>, \<^verbatim>\<open>TError\<close> the interface \<^verbatim>\<open>error\<close>, \<^verbatim>\<open>TInterface\<close> the empty
  interface and \<^verbatim>\<open>TConn\<close> the struct \<^verbatim>\<open>websocket.Conn\<close>.
\<close>

datatype kind =
  KInvalid | KBool | KInt | KUint | KFloat | KString | KSlice | KArray | KMap
  | KPtr | KInterface | KStruct | KFunc

datatype gtype =
    TBool | TInt | TUint | TFloat | TString | TBytes
  | TSlice gtype
  | TArray nat gtype
  | TMap gtype gtype
  | TPtr gtype
  | TInterface
  | TError
  | TStruct "(string \<times> gtype \<times> (string \<times> string) list) list"
  | TFunc "gtype list" "gtype list"
  | TConn

fun TKind :: "gtype \<Rightarrow> kind" where
  "TKind TBool = KBool"
| "TKind TInt = KInt"
| "TKind TUint = KUint"
| "TKind TFloat = KFloat"
| "TKind TString = KString"
| "TKind TBytes = KSlice"
| "TKind (TSlice t) = KSlice"
| "TKind (TArray n t) = KArray"
| "TKind (TMap k t) = KMap"
| "TKind (TPtr t) = KPtr"
| "TKind TInterface = KInterface"
| "TKind TError = KInterface"
| "TKind (TStruct fs) = KStruct"
| "TKind (TFunc ins outs) = KFunc"
| "TKind TConn = KStruct"

text \<open>
  A value: \<^verbatim>\<open>Invalid\<close> is the zero \<^verbatim>\<open>reflect.Value\<close>; \<^verbatim>\<open>None\<close> under a slice, map,
  pointer, interface or func is nil. A struct value lists its fields by name.
\<close>

datatype gvalue =
    Invalid
  | VBool bool
  | VInt int
  | VUint nat
  | VFloat real
  | VString string
  | VBytes "string option"
  | VSlice "gvalue list option"
  | VArray "gvalue list"
  | VMap "(gvalue \<times> gvalue) list option"
  | VPtr "gvalue option"
  | VInterface "gvalue option"
  | VStruct "(string \<times> gvalue) list"
  | VFunc bool

fun Kind :: "gvalue \<Rightarrow> kind" where
  "Kind Invalid = KInvalid"
| "Kind (VBool b) = KBool"
| "Kind (VInt i) = KInt"
| "Kind (VUint n) = KUint"
| "Kind (VFloat r) = KFloat"
| "Kind (VString s) = KString"
| "Kind (VBytes b) = KSlice"
| "Kind (VSlice xs) = KSlice"
| "Kind (VArray xs) = KArray"
| "Kind (VMap m) = KMap"
| "Kind (VPtr p) = KPtr"
| "Kind (VInterface i) = KInterface"
| "Kind (VStruct fs) = KStruct"
| "Kind (VFunc nonnil) = KFunc"

definition IsValid :: "gvalue \<Rightarrow> bool" where
  "IsValid v = (v \<noteq> Invalid)"

text \<open>
  Go errors are their messages. A panic of the runtime or of package reflect is a
  \<^verbatim>\<open>fault\<close>; a Go function either returns or panics.
\<close>

type_synonym error = string

datatype fault = ReflectPanic | NilDereference | IndexOutOfRange

datatype 'a outcome = Returns 'a | Panics fault

text \<open>
  \<^verbatim>\<open>Value.FieldByName\<close> panics unless the receiver is a struct and yields the zero Value
  for a name the struct does not have. \<^verbatim>\<open>Value.Interface\<close> panics on the zero Value and
  on a value read from an unexported field. \<^verbatim>\<open>Value.Bytes\<close> panics unless the value is
  a byte slice.
\<close>

fun FieldByName :: "gvalue \<Rightarrow> string \<Rightarrow> gvalue outcome" where
  "FieldByName (VStruct fs) name =
     Returns (case map_of fs name of None \<Rightarrow> Invalid | Some fv \<Rightarrow> fv)"
| "FieldByName v name = Panics ReflectPanic"

definition exported :: "string \<Rightarrow> bool" where
  "exported name = (case name of [] \<Rightarrow> False | c # cs \<Rightarrow> c \<in> set ''ABCDEFGHIJKLMNOPQRSTUVWXYZ'')"

fun Bytes :: "gvalue \<Rightarrow> string option outcome" where
  "Bytes (VBytes b) = Returns b"
| "Bytes v = Panics ReflectPanic"

section \<open>Strings: fmt and strings\<close>

fun decimal :: "nat \<Rightarrow> string" where
  "decimal n =
     (if n < 10 then [''0123456789'' ! n]
      else decimal (n div 10) @ [''0123456789'' ! (n mod 10)])"

declare decimal.simps [simp del]

definition sprintInt :: "int \<Rightarrow> string" where
  "sprintInt i = (if i < 0 then ''-'' @ decimal (nat (- i)) else decimal (nat i))"

text \<open>
  \<^verbatim>\<open>url.Values\<close> and \<^verbatim>\<open>http.Header\<close> are Go maps from a key to the list of its values.
  An \<^verbatim>\<open>*http.Request\<close> is kept as what the client sets; a response as what
  \<^verbatim>\<open>ioutil.ReadAll(resp.Body)\<close> yields on it; a \<^verbatim>\<open>*websocket.Config\<close> as its location,
  its query, its origin and its header.
\<close>

type_synonym "values" = "string \<rightharpoonup> string list"

record request =
  reqMethod :: string
  reqUrl :: string
  reqQuery :: "values"
  reqHeader :: "values"
  reqBody :: "string option"

record response =
  respBody :: "error + string"

record wsConfig =
  wsLocation :: string
  wsQuery :: "values"
  wsOrigin :: string
  wsHeader :: "values"

text \<open>
  What the client needs of the standard library and of \<^verbatim>\<open>x/net/websocket\<close> and cannot
  compute here is a parameter: \<^verbatim>\<open>fmt.Sprint\<close> on a value that is not a boolean, an
  integer or a string, \<^verbatim>\<open>textproto.CanonicalMIMEHeaderKey\<close>, \<^verbatim>\<open>url.Values.Encode\<close>,
  \<^verbatim>\<open>http.NewRequest\<close> (method, URL, body), \<^verbatim>\<open>websocket.NewConfig\<close> (server, origin) and
  \<^verbatim>\<open>websocket.DialConfig\<close>. A Go pair of a result and an error is a sum, \<^verbatim>\<open>Inl\<close> the
  error.
\<close>

record stdlib =
  SprintOther :: "gvalue \<Rightarrow> string"
  CanonicalHeaderKey :: "string \<Rightarrow> string"
  Encode :: "values \<Rightarrow> string"
  NewRequest :: "string \<Rightarrow> string \<Rightarrow> string option \<Rightarrow> error + request"
  NewConfig :: "string \<Rightarrow> string \<Rightarrow> error + wsConfig"
  DialConfig :: "wsConfig \<Rightarrow> error + gvalue"

fun Sprint :: "stdlib \<Rightarrow> gvalue \<Rightarrow> string" where
  "Sprint L (VBool b) = (if b then ''true'' else ''false'')"
| "Sprint L (VInt i) = sprintInt i"
| "Sprint L (VUint n) = decimal n"
| "Sprint L (VString s) = s"
| "Sprint L v = SprintOther L v"

text \<open>
  \<^verbatim>\<open>strings.Replace(s, old, new, -1)\<close>: every non-overlapping occurrence of \<^verbatim>\<open>old\<close>,
  from the left; an empty \<^verbatim>\<open>old\<close> matches before every character and at the end.
\<close>

fun replaceFrom :: "string \<Rightarrow> string \<Rightarrow> string \<Rightarrow> string" where
  "replaceFrom old new [] = []"
| "replaceFrom old new (c # cs) =
     (if old \<noteq> [] \<and> take (length old) (c # cs) = old
      then new @ replaceFrom old new (drop (length old) (c # cs))
      else c # replaceFrom old new cs)"

definition Replace :: "string \<Rightarrow> string \<Rightarrow> string \<Rightarrow> string" where
  "Replace s old new =
     (if old = [] then concat (map (\<lambda>c. new @ [c]) s) @ new else replaceFrom old new s)"

section \<open>Descriptors\<close>

record Arg =
  Name :: string
  OmitEmpty :: bool

text \<open>
  The four role maps of a \<^verbatim>\<open>StructMeta\<close> are Go maps from field identifier to \<^verbatim>\<open>*Arg\<close>.
  Each is kept as the list of its entries, keys distinct; the order of the list is the
  order in which a \<^verbatim>\<open>range\<close> statement visits the entries, which Go does not fix: the
  same map may be visited in any order of its entries.
\<close>

type_synonym nameMap = "(string \<times> Arg) list"

record StructMeta =
  pathFields :: nameMap
  formFields :: nameMap
  queryFields :: nameMap
  headerFields :: nameMap
  bodyField :: "Arg option"

record MethodArg =
  isStruct :: bool
  structMeta :: "StructMeta option"

record MethodMeta =
  returnType :: gtype
  methodArgs :: "MethodArg list"
  hasBody :: bool
  webSocket :: bool
  path :: string
  httpMethod :: string
  origin :: string

record RequestMeta =
  rpath :: string
  rmethod :: string
  rquery :: "values"
  rfields :: "values"
  rheaders :: "values"
  rbody :: "string option"

definition HttpMethods :: "string list" where
  "HttpMethods = [''GET'', ''POST'', ''PUT'', ''DELETE'']"

definition TagMethod :: string where "TagMethod = ''rc_method''"
definition TagPath :: string where "TagPath = ''rc_path''"
definition TagFeature :: string where "TagFeature = ''rc_feature''"
definition TagName :: string where "TagName = ''rc_name''"
definition TagOrigin :: string where "TagOrigin = ''rc_origin''"
definition TagOptions :: string where "TagOptions = ''rc_options''"
definition FeaturePath :: string where "FeaturePath = ''path''"
definition FeatureField :: string where "FeatureField = ''field''"
definition FeatureQuery :: string where "FeatureQuery = ''query''"
definition FeatureHeader :: string where "FeatureHeader = ''header''"
definition FeatureBody :: string where "FeatureBody = ''body''"
definition OptionOmitEmpty :: string where "OptionOmitEmpty = ''omitempty''"

text \<open>
  \<^verbatim>\<open>hasFields\<close> dereferences the \<^verbatim>\<open>structMeta\<close> pointer of every struct argument.
\<close>

fun hasFieldsArgs :: "MethodArg list \<Rightarrow> bool outcome" where
  "hasFieldsArgs [] = Returns False"
| "hasFieldsArgs (arg # args) =
     (if isStruct arg then
        (case structMeta arg of
           None \<Rightarrow> Panics NilDereference
         | Some sm \<Rightarrow> if length (formFields sm) > 0 then Returns True else hasFieldsArgs args)
      else hasFieldsArgs args)"

definition hasFields :: "MethodMeta \<Rightarrow> bool outcome" where
  "hasFields m = hasFieldsArgs (methodArgs m)"

section \<open>Helpers\<close>

definition in_list :: "string \<Rightarrow> string list \<Rightarrow> bool" where
  "in_list needle haystack = (needle \<in> set haystack)"

definition andThen :: "'a outcome \<Rightarrow> ('a \<Rightarrow> 'b outcome) \<Rightarrow> 'b outcome" where
  "andThen r f = (case r of Panics x \<Rightarrow> Panics x | Returns a \<Rightarrow> f a)"

definition Interface :: "gvalue \<Rightarrow> gvalue outcome" where
  "Interface v = (if v = Invalid then Panics ReflectPanic else Returns v)"

definition extractFieldValue :: "stdlib \<Rightarrow> gvalue \<Rightarrow> string \<Rightarrow> string outcome" where
  "extractFieldValue L v name =
     andThen (FieldByName v name) (\<lambda>fv.
       if \<not> exported name then Panics ReflectPanic
       else andThen (Interface fv) (\<lambda>i. Returns (Sprint L i)))"

definition elementType :: "gtype \<Rightarrow> gtype" where
  "elementType t = (case t of TPtr e \<Rightarrow> e | _ \<Rightarrow> t)"

fun elementValue :: "gvalue \<Rightarrow> gvalue" where
  "elementValue (VPtr p) = (case p of None \<Rightarrow> Invalid | Some e \<Rightarrow> e)"
| "elementValue (VInterface i) = (case i of None \<Rightarrow> Invalid | Some e \<Rightarrow> e)"
| "elementValue v = v"

section \<open>Request synthesis\<close>

fun isEmptyValue :: "gvalue \<Rightarrow> bool" where
  "isEmptyValue (VArray xs) = (length xs = 0)"
| "isEmptyValue (VMap m) = (case m of None \<Rightarrow> True | Some kvs \<Rightarrow> length kvs = 0)"
| "isEmptyValue (VSlice xs) = (case xs of None \<Rightarrow> True | Some ys \<Rightarrow> length ys = 0)"
| "isEmptyValue (VBytes b) = (case b of None \<Rightarrow> True | Some bs \<Rightarrow> length bs = 0)"
| "isEmptyValue (VString s) = (length s = 0)"
| "isEmptyValue (VBool b) = (\<not> b)"
| "isEmptyValue (VInt i) = (i = 0)"
| "isEmptyValue (VUint n) = (n = 0)"
| "isEmptyValue (VFloat r) = (r = 0)"
| "isEmptyValue (VInterface i) = (i = None)"
| "isEmptyValue (VPtr p) = (p = None)"
| "isEmptyValue v = False"

text \<open>
  \<^verbatim>\<open>applyPathFields\<close> tests \<^verbatim>\<open>isEmptyValue(value)\<close>, the struct, where
  \<^verbatim>\<open>applyAdderFields\<close> tests \<^verbatim>\<open>isEmptyValue(value.FieldByName(fn))\<close>, the field.
\<close>

fun applyPathFields :: "stdlib \<Rightarrow> gvalue \<Rightarrow> string \<Rightarrow> nameMap \<Rightarrow> string outcome" where
  "applyPathFields L v p [] = Returns p"
| "applyPathFields L v p ((fn, n) # nameMap) =
     (if \<not> IsValid v \<or> OmitEmpty n \<and> isEmptyValue v then applyPathFields L v p nameMap
      else andThen (extractFieldValue L v fn) (\<lambda>s.
           applyPathFields L v (Replace p (''{'' @ Name n @ ''}'') s) nameMap))"

definition applyPathIndex :: "stdlib \<Rightarrow> gvalue \<Rightarrow> string \<Rightarrow> nat \<Rightarrow> string outcome" where
  "applyPathIndex L v p index =
     andThen (Interface v) (\<lambda>i.
       Returns (Replace p (''{'' @ decimal index @ ''}'') (Sprint L i)))"

text \<open>
  A \<^verbatim>\<open>FieldAdder\<close> is its \<^verbatim>\<open>Add\<close> method on its state. \<^verbatim>\<open>url.Values.Add\<close> appends to the
  list under the key; \<^verbatim>\<open>http.Header.Add\<close> does so under the canonical form of the key.
\<close>

definition valuesAdd :: "string \<Rightarrow> string \<Rightarrow> values \<Rightarrow> values" where
  "valuesAdd key val m = m(key \<mapsto> (case m key of None \<Rightarrow> [] | Some vs \<Rightarrow> vs) @ [val])"

definition headerAdd :: "stdlib \<Rightarrow> string \<Rightarrow> string \<Rightarrow> values \<Rightarrow> values" where
  "headerAdd L key val m = valuesAdd (CanonicalHeaderKey L key) val m"

fun applyAdderFields ::
  "stdlib \<Rightarrow> gvalue \<Rightarrow> (string \<Rightarrow> string \<Rightarrow> 'a \<Rightarrow> 'a) \<Rightarrow> 'a \<Rightarrow> nameMap \<Rightarrow> 'a outcome" where
  "applyAdderFields L v add adder [] = Returns adder"
| "applyAdderFields L v add adder ((fn, n) # nameMap) =
     (if \<not> IsValid v then applyAdderFields L v add adder nameMap
      else andThen (if OmitEmpty n then andThen (FieldByName v fn) (\<lambda>fv. Returns (isEmptyValue fv))
                    else Returns False) (\<lambda>skip.
           if skip then applyAdderFields L v add adder nameMap
           else andThen (extractFieldValue L v fn) (\<lambda>s.
                applyAdderFields L v add (add (Name n) s adder) nameMap)))"

text \<open>The body of the loop of \<^verbatim>\<open>buildRequestMeta\<close> for a struct argument.\<close>

definition applyBodyField :: "StructMeta \<Rightarrow> gvalue \<Rightarrow> RequestMeta \<Rightarrow> RequestMeta outcome" where
  "applyBodyField sm argValue rm =
     (case bodyField sm of
        None \<Rightarrow> Returns rm
      | Some bf \<Rightarrow>
          andThen (FieldByName argValue (Name bf)) (\<lambda>val.
            if IsValid val \<and> \<not> (OmitEmpty bf \<and> isEmptyValue val)
            then andThen (Bytes val) (\<lambda>b. Returns (rm\<lparr>rbody := b\<rparr>))
            else Returns rm))"

definition applyStructArg :: "stdlib \<Rightarrow> StructMeta \<Rightarrow> gvalue \<Rightarrow> RequestMeta \<Rightarrow> RequestMeta outcome" where
  "applyStructArg L sm arg rm =
     (let argValue = elementValue arg in
      andThen (applyPathFields L argValue (rpath rm) (pathFields sm)) (\<lambda>p.
      andThen (applyAdderFields L argValue valuesAdd (rquery rm) (queryFields sm)) (\<lambda>q.
      andThen (applyAdderFields L argValue valuesAdd (rfields rm) (formFields sm)) (\<lambda>f.
      andThen (applyAdderFields L argValue (headerAdd L) (rheaders rm) (headerFields sm)) (\<lambda>h.
      applyBodyField sm argValue (rm\<lparr>rpath := p, rquery := q, rfields := f, rheaders := h\<rparr>))))))"

fun walkArgs :: "stdlib \<Rightarrow> MethodMeta \<Rightarrow> nat \<Rightarrow> gvalue list \<Rightarrow> RequestMeta \<Rightarrow> RequestMeta outcome" where
  "walkArgs L meta argIdx [] rm = Returns rm"
| "walkArgs L meta argIdx (arg # args) rm =
     (if argIdx \<ge> length (methodArgs meta) then Panics IndexOutOfRange
      else let methodArg = methodArgs meta ! argIdx in
        if \<not> isStruct methodArg then
          andThen (applyPathIndex L arg (rpath rm) argIdx) (\<lambda>p.
            walkArgs L meta (Suc argIdx) args (rm\<lparr>rpath := p\<rparr>))
        else
          (case structMeta methodArg of
             None \<Rightarrow> Panics NilDereference
           | Some sm \<Rightarrow>
               andThen (applyStructArg L sm arg rm) (\<lambda>rm'.
                 walkArgs L meta (Suc argIdx) args rm')))"

definition errBodyAndFields :: error where
  "errBodyAndFields = ''Body and fields are incompatible.''"

text \<open>
  \<^verbatim>\<open>len(rm.fields) > 0\<close>: the map has a key. The result is Go's pair: the error
  (\<^verbatim>\<open>Inl\<close>, with a nil \<^verbatim>\<open>*RequestMeta\<close>) or the request description.
\<close>

definition newRequestMeta :: "MethodMeta \<Rightarrow> RequestMeta" where
  "newRequestMeta meta =
     \<lparr>rpath = path meta, rmethod = httpMethod meta, rquery = Map.empty,
      rfields = Map.empty, rheaders = Map.empty, rbody = None\<rparr>"

definition buildRequestMeta ::
  "stdlib \<Rightarrow> MethodMeta \<Rightarrow> gvalue list \<Rightarrow> (error + RequestMeta) outcome" where
  "buildRequestMeta L meta args =
     andThen (walkArgs L meta 0 args (newRequestMeta meta)) (\<lambda>rm.
       if dom (rfields rm) \<noteq> {} then
         (if rbody rm \<noteq> None then Returns (Inl errBodyAndFields)
          else Returns (Inr (rm\<lparr>rbody := Some (Encode L (rfields rm))\<rparr>)))
       else Returns (Inr rm))"

section \<open>Compilation of descriptors\<close>

definition Get :: "(string \<times> string) list \<Rightarrow> string \<Rightarrow> string" where
  "Get tag key = (case map_of tag key of None \<Rightarrow> [] | Some v \<Rightarrow> v)"

text \<open>\<^verbatim>\<open>strings.Split\<close> on a one-character separator.\<close>

fun Split :: "string \<Rightarrow> char \<Rightarrow> string list" where
  "Split [] sep = [[]]"
| "Split (c # cs) sep =
     (if c = sep then [] # Split cs sep
      else (case Split cs sep of [] \<Rightarrow> [[c]] | x # xs \<Rightarrow> (c # x) # xs))"

definition errOneBody :: error where
  "errOneBody = ''Only one body per request is supported.''"

type_synonym structField = "string \<times> gtype \<times> (string \<times> string) list"

fun structFields :: "gtype \<Rightarrow> structField list" where
  "structFields (TStruct fs) = fs"
| "structFields t = []"

fun processFields :: "structField list \<Rightarrow> StructMeta \<Rightarrow> error + StructMeta" where
  "processFields [] sm = Inr sm"
| "processFields ((fname, ftype, tag) # rest) sm =
     (if TKind ftype = KFunc then processFields rest sm
      else
        let feature = Get tag TagFeature in
        if feature = [] then processFields rest sm
        else
          let name = (if Get tag TagName = [] then fname else Get tag TagName);
              arg = \<lparr>Name = name,
                     OmitEmpty = (OptionOmitEmpty \<in> set (Split (Get tag TagOptions) CHR '',''))\<rparr>
          in
            if feature = FeaturePath then
              processFields rest (sm\<lparr>pathFields := AList.update fname arg (pathFields sm)\<rparr>)
            else if feature = FeatureField then
              processFields rest (sm\<lparr>formFields := AList.update fname arg (formFields sm)\<rparr>)
            else if feature = FeatureQuery then
              processFields rest (sm\<lparr>queryFields := AList.update fname arg (queryFields sm)\<rparr>)
            else if feature = FeatureHeader then
              processFields rest (sm\<lparr>headerFields := AList.update fname arg (headerFields sm)\<rparr>)
            else if feature = FeatureBody then
              (if bodyField sm \<noteq> None then Inl errOneBody
               else processFields rest (sm\<lparr>bodyField := Some arg\<rparr>))
            else processFields rest sm)"

definition processStructArg :: "gtype \<Rightarrow> error + StructMeta" where
  "processStructArg argType =
     processFields (structFields argType)
       \<lparr>pathFields = [], formFields = [], queryFields = [], headerFields = [], bodyField = None\<rparr>"


text \<open>
  A field of the service struct: its name, type and tag, and what it holds. A func field
  that \<^verbatim>\<open>Init\<close> has set holds the function made by \<^verbatim>\<open>makeRequestFunc\<close> or by
  \<^verbatim>\<open>makeWebSocketFunc\<close> for the type and the descriptor; any other content is \<^verbatim>\<open>Plain\<close>.
\<close>

datatype slot = Plain gvalue | RequestFunc gtype MethodMeta | WebSocketFunc gtype MethodMeta

record ServiceField =
  fieldName :: string
  fieldType :: gtype
  fieldTag :: "(string \<times> string) list"
  fieldValue :: slot

definition errTwoValues :: error where
  "errTwoValues = ''Functions must return two values''"

definition errSecondError :: error where
  "errSecondError = ''Second return value must be an error.''"

definition errUnsupportedMethod :: "string \<Rightarrow> error" where
  "errUnsupportedMethod m = ''Unsupported method: '' @ m"

definition errFieldsAndBody :: error where
  "errFieldsAndBody = ''Requests cannot have form fields and an explicit body.''"

text \<open>The loop of \<^verbatim>\<open>Init\<close> over the parameters of one func field.\<close>

fun compileArgs :: "gtype list \<Rightarrow> nat \<Rightarrow> MethodMeta \<Rightarrow> error + MethodMeta" where
  "compileArgs [] argIdx meta = Inr meta"
| "compileArgs (argType # rest) argIdx meta =
     (let argValue = elementType argType in
      if TKind argValue = KStruct then
        (case processStructArg argValue of
           Inl err \<Rightarrow> Inl err
         | Inr sm \<Rightarrow>
             if bodyField sm \<noteq> None \<and> hasBody meta then Inl errOneBody
             else compileArgs rest (Suc argIdx)
                    (meta\<lparr>hasBody := (if bodyField sm \<noteq> None then True else hasBody meta),
                          methodArgs := (methodArgs meta)
                            [argIdx := \<lparr>isStruct = True, structMeta = Some sm\<rparr>]\<rparr>))
      else compileArgs rest (Suc argIdx)
             (meta\<lparr>methodArgs := (methodArgs meta)
                [argIdx := (methodArgs meta ! argIdx)\<lparr>isStruct := False\<rparr>]\<rparr>))"

text \<open>
  The body of the loop of \<^verbatim>\<open>Init\<close> for a func field with parameter types \<^verbatim>\<open>ins\<close> and
  result types \<^verbatim>\<open>outs\<close>: the error that \<^verbatim>\<open>Init\<close> returns, or the function it stores.
  \<^verbatim>\<open>Value.Set\<close> panics on an unexported field.
\<close>

definition compileFunc ::
  "ServiceField \<Rightarrow> gtype list \<Rightarrow> gtype list \<Rightarrow> (error + slot) outcome" where
  "compileFunc f ins outs =
     (if length outs \<noteq> 2 then Returns (Inl errTwoValues)
      else
        let rt = outs ! 0;
            ws = (rt = TPtr TConn);
            org = (if ws then Get (fieldTag f) TagOrigin else [])
        in
        if outs ! 1 \<noteq> TError then Returns (Inl errSecondError)
        else
          let m = Get (fieldTag f) TagMethod in
          if \<not> in_list m HttpMethods then Returns (Inl (errUnsupportedMethod m))
          else
            (case compileArgs ins 0
                    \<lparr>returnType = rt,
                     methodArgs = replicate (length ins) \<lparr>isStruct = False, structMeta = None\<rparr>,
                     hasBody = False, webSocket = ws,
                     path = Get (fieldTag f) TagPath, httpMethod = m, origin = org\<rparr> of
               Inl err \<Rightarrow> Returns (Inl err)
             | Inr meta \<Rightarrow>
                 andThen (if hasBody meta then hasFields meta else Returns False) (\<lambda>conflict.
                   if conflict then Returns (Inl errFieldsAndBody)
                   else if \<not> exported (fieldName f) then Panics ReflectPanic
                   else if \<not> webSocket meta then Returns (Inr (RequestFunc (fieldType f) meta))
                   else Returns (Inr (WebSocketFunc (fieldType f) meta)))))"

text \<open>
  \<^verbatim>\<open>Init\<close> on the fields of the service struct, in order: the error it returns (or none)
  and the fields as it leaves them.
\<close>

fun Init :: "ServiceField list \<Rightarrow> (error option \<times> ServiceField list) outcome" where
  "Init [] = Returns (None, [])"
| "Init (f # fs) =
     (case fieldType f of
        TFunc ins outs \<Rightarrow>
          andThen (compileFunc f ins outs) (\<lambda>r.
            case r of
              Inl err \<Rightarrow> Returns (Some err, f # fs)
            | Inr fn \<Rightarrow>
                andThen (Init fs) (\<lambda>(e, fs'). Returns (e, f\<lparr>fieldValue := fn\<rparr> # fs')))
      | _ \<Rightarrow> andThen (Init fs) (\<lambda>(e, fs'). Returns (e, f # fs')))"

section \<open>Dispatch\<close>

text \<open>\<^verbatim>\<open>reflect.Zero\<close>: the zero value of a type.\<close>

fun Zero :: "gtype \<Rightarrow> gvalue" where
  "Zero TBool = VBool False"
| "Zero TInt = VInt 0"
| "Zero TUint = VUint 0"
| "Zero TFloat = VFloat 0"
| "Zero TString = VString []"
| "Zero TBytes = VBytes None"
| "Zero (TSlice t) = VSlice None"
| "Zero (TArray n t) = VArray (replicate n (Zero t))"
| "Zero (TMap k t) = VMap None"
| "Zero (TPtr t) = VPtr None"
| "Zero TInterface = VInterface None"
| "Zero TError = VInterface None"
| "Zero (TStruct fs) = VStruct (map (\<lambda>fd. (fst fd, Zero (fst (snd fd)))) fs)"
| "Zero (TFunc ins outs) = VFunc False"
| "Zero TConn = VStruct []"

text \<open>
  A \<^verbatim>\<open>RetryHandler\<close> is an object: its state and its \<^verbatim>\<open>Retry\<close> method, which returns
  nil (\<^verbatim>\<open>None\<close>) or an error and may change the state.
\<close>

record 'h RetryHandler =
  handlerState :: 'h
  Retry :: "'h \<Rightarrow> error \<Rightarrow> error option \<times> 'h"

record BasicRetryHandler =
  maxRetries :: int
  retryCount :: int

definition NewBasicRetryHandler :: "int \<Rightarrow> BasicRetryHandler" where
  "NewBasicRetryHandler n = \<lparr>maxRetries = n, retryCount = 0\<rparr>"

definition BasicRetry :: "BasicRetryHandler \<Rightarrow> error \<Rightarrow> error option \<times> BasicRetryHandler" where
  "BasicRetry h err = (if retryCount h < maxRetries h then (None, h) else (Some err, h))"

text \<open>
  The client. \<^verbatim>\<open>httpClient\<close> is the transport: what \<^verbatim>\<open>client.Do\<close> yields on a request
  at the n-th send of a call. An \<^verbatim>\<open>Unmarshaler\<close> decodes bytes into a new value of the
  given type or fails.
\<close>

record 'h Client =
  baseUrl :: string
  retryHandler :: "'h RetryHandler option"
  unmarshaler :: "(string \<Rightarrow> gtype \<Rightarrow> error + gvalue) option"
  requestTransformers :: "(request \<Rightarrow> request) list"
  httpClient :: "nat \<Rightarrow> request \<Rightarrow> error + response"

definition applyRequestTransformers :: "'h Client \<Rightarrow> request \<Rightarrow> request" where
  "applyRequestTransformers c req = fold (\<lambda>t r. t r) (requestTransformers c) req"

text \<open>The two result values of a stub: the payload and the error (\<^verbatim>\<open>None\<close> is nil).\<close>

type_synonym rvals = "gvalue \<times> error option"

definition handleResponse ::
  "'h Client \<Rightarrow> MethodMeta \<Rightarrow> response option \<Rightarrow> error option \<Rightarrow> rvals" where
  "handleResponse c meta resp err =
     (let rvals = (Zero (returnType meta), None) in
      case err of
        Some e \<Rightarrow> (fst rvals, Some e)
      | None \<Rightarrow>
          (case resp of
             None \<Rightarrow> rvals
           | Some r \<Rightarrow>
               (case respBody r of
                  Inl e \<Rightarrow> (fst rvals, Some e)
                | Inr b \<Rightarrow>
                    (case unmarshaler c of
                       None \<Rightarrow> (VBytes (Some b), snd rvals)
                     | Some u \<Rightarrow>
                         (case u b (returnType meta) of
                            Inl e \<Rightarrow> (fst rvals, Some e)
                          | Inr instance \<Rightarrow> (instance, snd rvals))))))"

text \<open>
  The function made by \<^verbatim>\<open>reflect.MakeFunc\<close> panics when the closure returns a value that
  is not assignable to the declared result type. The only payload that
  \<^verbatim>\<open>handleResponse\<close> does not build from the declared type is the raw body, a \<^verbatim>\<open>[]byte\<close>.
\<close>

definition returnsFromMakeFunc :: "MethodMeta \<Rightarrow> rvals \<Rightarrow> rvals outcome" where
  "returnsFromMakeFunc meta rv =
     (case fst rv of
        VBytes b \<Rightarrow> if returnType meta = TBytes \<or> returnType meta = TInterface then Returns rv
                    else Panics ReflectPanic
      | _ \<Rightarrow> Returns rv)"

text \<open>
  The send loop of \<^verbatim>\<open>makeRequestFunc\<close>. It ends only through \<^verbatim>\<open>return\<close>: a run
  that sends forever has no result (\<^verbatim>\<open>None\<close>). The result is what \<^verbatim>\<open>handleResponse\<close>
  returns and the number of sends of the call. The retry handler is reached through a
  pointer: the state that \<^verbatim>\<open>Retry\<close> leaves is the state that the next \<^verbatim>\<open>Retry\<close> finds.
\<close>

partial_function (option) sendLoop ::
  "'h Client \<Rightarrow> MethodMeta \<Rightarrow> request \<Rightarrow> nat \<Rightarrow> (rvals \<times> nat) option" where
  "sendLoop c meta req n =
     (case httpClient c n req of
        Inr resp \<Rightarrow> Some (handleResponse c meta (Some resp) None, Suc n)
      | Inl err \<Rightarrow>
          (case retryHandler c of
             None \<Rightarrow> Some (handleResponse c meta None (Some err), Suc n)
           | Some r \<Rightarrow>
               (case Retry r (handlerState r) err of
                  (None, h') \<Rightarrow>
                    sendLoop (c\<lparr>retryHandler := Some (r\<lparr>handlerState := h'\<rparr>)\<rparr>) meta req (Suc n)
                | (Some err', h') \<Rightarrow> Some (handleResponse c meta None (Some err'), Suc n))))"

text \<open>
  Merging the collected query values and headers into the request: for every key, each
  collected value is appended to the values the request has under that key. The keys of
  the collected headers are canonical already.
\<close>

definition mergeValues :: "values \<Rightarrow> values \<Rightarrow> values" where
  "mergeValues qu add =
     (\<lambda>k. case add k of
             None \<Rightarrow> qu k
           | Some ql \<Rightarrow> if ql = [] then qu k
                        else Some ((case qu k of None \<Rightarrow> [] | Some xs \<Rightarrow> xs) @ ql))"

text \<open>
  The function that \<^verbatim>\<open>makeRequestFunc\<close> makes, applied to the arguments of a call:
  \<^verbatim>\<open>None\<close> when the call never returns, else a panic or the two result values with the
  number of requests sent. When \<^verbatim>\<open>http.NewRequest\<close> fails the result of
  \<^verbatim>\<open>handleResponse\<close> is dropped and \<^verbatim>\<open>req.URL\<close> is read from the nil request.
\<close>

definition makeRequestFunc ::
  "stdlib \<Rightarrow> 'h Client \<Rightarrow> MethodMeta \<Rightarrow> gvalue list \<Rightarrow> (rvals \<times> nat) outcome option" where
  "makeRequestFunc L c meta args =
     (case buildRequestMeta L meta args of
        Panics x \<Rightarrow> Some (Panics x)
      | Returns (Inl err) \<Rightarrow>
          Some (andThen (returnsFromMakeFunc meta (handleResponse c meta None (Some err)))
                  (\<lambda>rv. Returns (rv, 0)))
      | Returns (Inr rm) \<Rightarrow>
          (case NewRequest L (rmethod rm) (baseUrl c @ rpath rm) (rbody rm) of
             Inl err \<Rightarrow> Some (Panics NilDereference)
           | Inr req0 \<Rightarrow>
               let req1 = req0\<lparr>reqQuery := mergeValues (reqQuery req0) (rquery rm),
                               reqHeader := mergeValues (reqHeader req0) (rheaders rm)\<rparr>;
                   req = applyRequestTransformers c req1
               in
                 map_option
                   (\<lambda>(rv, n). andThen (returnsFromMakeFunc meta rv) (\<lambda>rv'. Returns (rv', n)))
                   (sendLoop c meta req 0)))"

text \<open>
  The function that \<^verbatim>\<open>makeWebSocketFunc\<close> makes. The error of \<^verbatim>\<open>buildRequestMeta\<close> is
  dropped (\<^verbatim>\<open>rm, _ :=\<close>) and \<^verbatim>\<open>rm.path\<close> is read next, from a nil pointer when there
  was an error.
\<close>

definition makeWebSocketFunc ::
  "stdlib \<Rightarrow> 'h Client \<Rightarrow> MethodMeta \<Rightarrow> gvalue list \<Rightarrow> rvals outcome" where
  "makeWebSocketFunc L c meta args =
     andThen (buildRequestMeta L meta args) (\<lambda>r.
       case r of
         Inl err \<Rightarrow> Panics NilDereference
       | Inr rm \<Rightarrow>
           (case NewConfig L (baseUrl c @ rpath rm) (origin meta) of
              Inl err \<Rightarrow> Returns (Zero (returnType meta), Some err)
            | Inr config0 \<Rightarrow>
                let config = config0\<lparr>wsQuery := mergeValues (wsQuery config0) (rquery rm),
                                      wsHeader := mergeValues (wsHeader config0) (rheaders rm)\<rparr>
                in
                  (case DialConfig L config of
                     Inl err \<Rightarrow> Returns (Zero (returnType meta), Some err)
                   | Inr conn \<Rightarrow> Returns (conn, None))))"

section \<open>Notions used to state the properties\<close>

text \<open>A field is bound when it holds a function made by \<^verbatim>\<open>Init\<close>.\<close>

definition bound :: "ServiceField \<Rightarrow> bool" where
  "bound f = (case fieldValue f of Plain v \<Rightarrow> False | _ \<Rightarrow> True)"

definition isFuncField :: "ServiceField \<Rightarrow> bool" where
  "isFuncField f = (TKind (fieldType f) = KFunc)"

definition errorOf :: "(error option \<times> ServiceField list) outcome \<Rightarrow> error option outcome" where
  "errorOf r = andThen r (\<lambda>(e, fs). Returns e)"

text \<open>
  The body-role fields of a parameter list: the fields that \<^verbatim>\<open>processStructArg\<close> reads
  (not of func type) whose feature tag is \<^verbatim>\<open>body\<close>, over every parameter that is a struct
  or a pointer to one.
\<close>

definition isBodyField :: "structField \<Rightarrow> bool" where
  "isBodyField fd =
     (case fd of (fname, ftype, tag) \<Rightarrow> TKind ftype \<noteq> KFunc \<and> Get tag TagFeature = FeatureBody)"

definition bodyFieldsOf :: "gtype \<Rightarrow> nat" where
  "bodyFieldsOf argType =
     (if TKind (elementType argType) = KStruct
      then length (filter isBodyField (structFields (elementType argType))) else 0)"

definition bodyFieldCount :: "gtype list \<Rightarrow> nat" where
  "bodyFieldCount ins = sum_list (map bodyFieldsOf ins)"

definition bodySet :: "StructMeta \<Rightarrow> nat" where
  "bodySet sm = (if bodyField sm = None then 0 else 1)"

definition bodyFlag :: "MethodMeta \<Rightarrow> nat" where
  "bodyFlag meta = (if hasBody meta then 1 else 0)"

text \<open>
  What one entry of a role map does in \<^verbatim>\<open>applyAdderFields\<close>: it panics, is skipped
  (\<^verbatim>\<open>None\<close>) or adds the string of the field under the entry's name.
\<close>

definition fieldAction :: "stdlib \<Rightarrow> gvalue \<Rightarrow> string \<times> Arg \<Rightarrow> string option outcome" where
  "fieldAction L v e =
     (if \<not> IsValid v then Returns None
      else andThen (if OmitEmpty (snd e)
                    then andThen (FieldByName v (fst e)) (\<lambda>fv. Returns (isEmptyValue fv))
                    else Returns False) (\<lambda>skip.
           if skip then Returns None
           else andThen (extractFieldValue L v (fst e)) (\<lambda>s. Returns (Some s))))"

definition adderStep ::
  "stdlib \<Rightarrow> gvalue \<Rightarrow> (string \<Rightarrow> string \<Rightarrow> 'a \<Rightarrow> 'a) \<Rightarrow> string \<times> Arg \<Rightarrow> 'a outcome \<Rightarrow> 'a outcome" where
  "adderStep L v add e r =
     andThen r (\<lambda>adder. andThen (fieldAction L v e) (\<lambda>a.
       case a of None \<Rightarrow> Returns adder | Some s \<Rightarrow> Returns (add (Name (snd e)) s adder)))"

text \<open>
  Two descriptors are the same Go data when they differ at most in the order in which
  the entries of the query, form and header maps are listed; the path entries are listed
  in the same order.
\<close>

definition sameRoleMaps :: "StructMeta \<Rightarrow> StructMeta \<Rightarrow> bool" where
  "sameRoleMaps sm sm' =
     (pathFields sm' = pathFields sm \<and>
      mset (queryFields sm') = mset (queryFields sm) \<and>
      mset (formFields sm') = mset (formFields sm) \<and>
      mset (headerFields sm') = mset (headerFields sm) \<and>
      bodyField sm' = bodyField sm)"

definition sameArg :: "MethodArg \<Rightarrow> MethodArg \<Rightarrow> bool" where
  "sameArg a a' =
     (isStruct a' = isStruct a \<and> rel_option sameRoleMaps (structMeta a) (structMeta a'))"

definition sameDescriptor :: "MethodMeta \<Rightarrow> MethodMeta \<Rightarrow> bool" where
  "sameDescriptor meta meta' =
     (list_all2 sameArg (methodArgs meta) (methodArgs meta') \<and>
      returnType meta' = returnType meta \<and> hasBody meta' = hasBody meta \<and>
      webSocket meta' = webSocket meta \<and> path meta' = path meta \<and>
      httpMethod meta' = httpMethod meta \<and> origin meta' = origin meta)"

definition distinctNames :: "stdlib \<Rightarrow> StructMeta \<Rightarrow> bool" where
  "distinctNames L sm =
     (distinct (map (\<lambda>e. Name (snd e)) (queryFields sm)) \<and>
      distinct (map (\<lambda>e. Name (snd e)) (formFields sm)) \<and>
      distinct (map (\<lambda>e. CanonicalHeaderKey L (Name (snd e))) (headerFields sm)))"

text \<open>
  A descriptor has a body argument (a form argument) when some struct argument has a body
  field (a form field). In a descriptor that \<^verbatim>\<open>Init\<close> builds every struct argument has
  its \<^verbatim>\<open>StructMeta\<close>, and \<^verbatim>\<open>hasBody\<close> is set when one of them has a body field.
\<close>

definition bodyArgs :: "MethodMeta \<Rightarrow> bool" where
  "bodyArgs meta =
     (\<exists>a \<in> set (methodArgs meta). isStruct a \<and>
        (\<exists>sm. structMeta a = Some sm \<and> bodyField sm \<noteq> None))"

definition formArgs :: "MethodMeta \<Rightarrow> bool" where
  "formArgs meta =
     (\<exists>a \<in> set (methodArgs meta). isStruct a \<and>
        (\<exists>sm. structMeta a = Some sm \<and> formFields sm \<noteq> []))"

definition compiledArgs :: "MethodMeta \<Rightarrow> bool" where
  "compiledArgs meta =
     (\<forall>a \<in> set (methodArgs meta). isStruct a \<longrightarrow>
        (\<exists>sm. structMeta a = Some sm \<and> (bodyField sm \<noteq> None \<longrightarrow> hasBody meta)))"

section \<open>Example services\<close>

text \<open>
  A stand-in for the library, for closed examples: \<^verbatim>\<open>http.NewRequest\<close> rejects a URL
  with a percent sign, as \<^verbatim>\<open>url.Parse\<close> rejects a malformed escape such as \<^verbatim>\<open>%zz\<close>.
\<close>

definition exampleLib :: stdlib where
  "exampleLib =
     \<lparr>SprintOther = (\<lambda>v. ''?''),
      CanonicalHeaderKey = (\<lambda>k. k),
      Encode = (\<lambda>m. ''form''),
      NewRequest = (\<lambda>m u b.
        if CHR ''%'' \<in> set u then Inl ''invalid URL escape''
        else Inr \<lparr>reqMethod = m, reqUrl = u, reqQuery = Map.empty, reqHeader = Map.empty,
                  reqBody = b\<rparr>),
      NewConfig = (\<lambda>u og.
        Inr \<lparr>wsLocation = u, wsQuery = Map.empty, wsOrigin = og, wsHeader = Map.empty\<rparr>),
      DialConfig = (\<lambda>cfg. Inl ''connection refused'')\<rparr>"

text \<open>
  \<^verbatim>\<open>User func(string) ([]byte, error)\<close> with method GET and path \<^verbatim>\<open>/user/{0}\<close>, and its
  descriptor.
\<close>

definition userStub :: ServiceField where
  "userStub =
     \<lparr>fieldName = ''User'', fieldType = TFunc [TString] [TBytes, TError],
      fieldTag = [(''rc_method'', ''GET''), (''rc_path'', ''/user/{0}'')],
      fieldValue = Plain (VFunc False)\<rparr>"

definition userMeta :: MethodMeta where
  "userMeta =
     \<lparr>returnType = TBytes, methodArgs = [\<lparr>isStruct = False, structMeta = None\<rparr>],
      hasBody = False, webSocket = False, path = ''/user/{0}'', httpMethod = ''GET'', origin = []\<rparr>"

text \<open>A transport that fails at every send, and a client on it with a basic retry handler.\<close>

definition refusing :: "nat \<Rightarrow> request \<Rightarrow> error + response" where
  "refusing n req = Inl ''connection refused''"

definition retryClient :: "int \<Rightarrow> BasicRetryHandler Client" where
  "retryClient n =
     \<lparr>baseUrl = ''http://localhost'',
      retryHandler = Some \<lparr>handlerState = NewBasicRetryHandler n, Retry = BasicRetry\<rparr>,
      unmarshaler = None, requestTransformers = [], httpClient = refusing\<rparr>"

text \<open>
  A struct with a path field and a query field, both with \<^verbatim>\<open>omitempty\<close>:
  \<^verbatim>\<open>Id int64 `rc_feature:"path" rc_name:"id" rc_options:"omitempty"`\<close> and
  \<^verbatim>\<open>Page int64 `rc_feature:"query" rc_name:"page" rc_options:"omitempty"`\<close>, and the stub
  \<^verbatim>\<open>UserByStruct func(*UserId) ([]byte, error)\<close> with path \<^verbatim>\<open>/user/{id}\<close>.
\<close>

definition UserId :: gtype where
  "UserId = TStruct
     [(''Id'', TInt,
         [(''rc_feature'', ''path''), (''rc_name'', ''id''), (''rc_options'', ''omitempty'')]),
      (''Page'', TInt,
         [(''rc_feature'', ''query''), (''rc_name'', ''page''), (''rc_options'', ''omitempty'')])]"

definition userByStruct :: ServiceField where
  "userByStruct =
     \<lparr>fieldName = ''UserByStruct'', fieldType = TFunc [TPtr UserId] [TBytes, TError],
      fieldTag = [(''rc_method'', ''GET''), (''rc_path'', ''/user/{id}'')],
      fieldValue = Plain (VFunc False)\<rparr>"

definition userByStructMeta :: MethodMeta where
  "userByStructMeta =
     \<lparr>returnType = TBytes,
      methodArgs = [\<lparr>isStruct = True, structMeta = Some
         \<lparr>pathFields = [(''Id'', \<lparr>Name = ''id'', OmitEmpty = True\<rparr>)], formFields = [],
          queryFields = [(''Page'', \<lparr>Name = ''page'', OmitEmpty = True\<rparr>)], headerFields = [],
          bodyField = None\<rparr>\<rparr>],
      hasBody = False, webSocket = False, path = ''/user/{id}'', httpMethod = ''GET'', origin = []\<rparr>"

text \<open>
  The struct of \<^verbatim>\<open>TestApplyPathFields\<close>, a stub on it with path \<^verbatim>\<open>/pre/{id}/post\<close>, and a
  stub of three strings with path \<^verbatim>\<open>/{0}/{2}/{1}\<close>.
\<close>

definition TestArg :: gtype where
  "TestArg = TStruct [(''Id'', TInt, [(''rc_feature'', ''path''), (''rc_name'', ''id'')])]"

definition pathStub :: ServiceField where
  "pathStub =
     \<lparr>fieldName = ''Path'', fieldType = TFunc [TPtr TestArg] [TInterface, TError],
      fieldTag = [(''rc_method'', ''GET''), (''rc_path'', ''/pre/{id}/post'')],
      fieldValue = Plain (VFunc False)\<rparr>"

definition pathMeta :: MethodMeta where
  "pathMeta =
     \<lparr>returnType = TInterface,
      methodArgs = [\<lparr>isStruct = True, structMeta = Some
         \<lparr>pathFields = [(''Id'', \<lparr>Name = ''id'', OmitEmpty = False\<rparr>)], formFields = [],
          queryFields = [], headerFields = [], bodyField = None\<rparr>\<rparr>],
      hasBody = False, webSocket = False, path = ''/pre/{id}/post'', httpMethod = ''GET'',
      origin = []\<rparr>"

definition indexStub :: ServiceField where
  "indexStub =
     \<lparr>fieldName = ''Index'', fieldType = TFunc [TString, TString, TString] [TInterface, TError],
      fieldTag = [(''rc_method'', ''GET''), (''rc_path'', ''/{0}/{2}/{1}'')],
      fieldValue = Plain (VFunc False)\<rparr>"

definition indexMeta :: MethodMeta where
  "indexMeta =
     \<lparr>returnType = TInterface,
      methodArgs = replicate 3 \<lparr>isStruct = False, structMeta = None\<rparr>,
      hasBody = False, webSocket = False, path = ''/{0}/{2}/{1}'', httpMethod = ''GET'',
      origin = []\<rparr>"

text \<open>
  The service of \<^verbatim>\<open>TestUnsupportedMethod\<close>, \<^verbatim>\<open>Method func() (interface{}, error)\<close> with the
  method BOGUS, after a stub that is valid.
\<close>

definition bogusStub :: ServiceField where
  "bogusStub =
     \<lparr>fieldName = ''Method'', fieldType = TFunc [] [TInterface, TError],
      fieldTag = [(''rc_method'', ''BOGUS'')], fieldValue = Plain (VFunc False)\<rparr>"

definition twoStubs :: "ServiceField list" where
  "twoStubs = [userStub, bogusStub]"

text \<open>
  The service of \<^verbatim>\<open>TestNonFunctionField\<close>: \<^verbatim>\<open>Id int\<close> and
  \<^verbatim>\<open>Call func() (interface{}, error)\<close> with method GET and path \<^verbatim>\<open>/test\<close>.
\<close>

definition idField :: ServiceField where
  "idField =
     \<lparr>fieldName = ''Id'', fieldType = TInt, fieldTag = [], fieldValue = Plain (VInt 0)\<rparr>"

definition callStub :: ServiceField where
  "callStub =
     \<lparr>fieldName = ''Call'', fieldType = TFunc [] [TInterface, TError],
      fieldTag = [(''rc_method'', ''GET''), (''rc_path'', ''/test'')],
      fieldValue = Plain (VFunc False)\<rparr>"

definition callMeta :: MethodMeta where
  "callMeta =
     \<lparr>returnType = TInterface, methodArgs = [], hasBody = False, webSocket = False,
      path = ''/test'', httpMethod = ''GET'', origin = []\<rparr>"

text \<open>
  The services of \<^verbatim>\<open>TestMultipleBodySameArg\<close> and \<^verbatim>\<open>TestMultipleBodyDiffArgs\<close>: one
  parameter whose struct has two body fields, and two parameters whose struct has one.
\<close>

definition TwoBodyArg :: gtype where
  "TwoBodyArg = TStruct
     [(''Body'', TBytes, [(''rc_feature'', ''body'')]),
      (''Body1'', TBytes, [(''rc_feature'', ''body'')])]"

definition BodyArg :: gtype where
  "BodyArg = TStruct [(''Body'', TBytes, [(''rc_feature'', ''body'')])]"

definition sameArgStub :: ServiceField where
  "sameArgStub =
     \<lparr>fieldName = ''Call'', fieldType = TFunc [TPtr TwoBodyArg] [TBytes, TError],
      fieldTag = [(''rc_method'', ''POST'')], fieldValue = Plain (VFunc False)\<rparr>"

definition diffArgsStub :: ServiceField where
  "diffArgsStub =
     \<lparr>fieldName = ''Call'', fieldType = TFunc [TPtr BodyArg, TPtr BodyArg] [TBytes, TError],
      fieldTag = [(''rc_method'', ''POST'')], fieldValue = Plain (VFunc False)\<rparr>"

text \<open>
  A stub on a struct of two string fields \<^verbatim>\<open>A\<close> and \<^verbatim>\<open>B\<close>: its descriptor for given
  entries of the query map and of the path map, in the order in which they are visited.
\<close>

definition pairMeta :: "nameMap \<Rightarrow> nameMap \<Rightarrow> MethodMeta" where
  "pairMeta pathEntries queryEntries =
     \<lparr>returnType = TBytes,
      methodArgs = [\<lparr>isStruct = True, structMeta = Some
         \<lparr>pathFields = pathEntries, formFields = [], queryFields = queryEntries,
          headerFields = [], bodyField = None\<rparr>\<rparr>],
      hasBody = False, webSocket = False, path = ''/{a}/{b}'', httpMethod = ''GET'',
      origin = []\<rparr>"

definition entry :: "string \<Rightarrow> string \<Rightarrow> string \<times> Arg" where
  "entry fn n = (fn, \<lparr>Name = n, OmitEmpty = False\<rparr>)"

definition pairArg :: "string \<Rightarrow> string \<Rightarrow> gvalue" where
  "pairArg a b = VStruct [(''A'', VString a), (''B'', VString b)]"

text \<open>
  A descriptor built by hand, as code of the package can: one struct parameter with a
  form field \<^verbatim>\<open>Field\<close> and a body field \<^verbatim>\<open>Body\<close>; and the same descriptor for a
  websocket stub.
\<close>

definition conflictMeta :: MethodMeta where
  "conflictMeta =
     \<lparr>returnType = TBytes,
      methodArgs = [\<lparr>isStruct = True, structMeta = Some
         \<lparr>pathFields = [], formFields = [(''Field'', \<lparr>Name = ''field'', OmitEmpty = False\<rparr>)],
          queryFields = [], headerFields = [],
          bodyField = Some \<lparr>Name = ''Body'', OmitEmpty = False\<rparr>\<rparr>\<rparr>],
      hasBody = True, webSocket = False, path = ''/post'', httpMethod = ''POST'', origin = []\<rparr>"

definition wsConflictMeta :: MethodMeta where
  "wsConflictMeta =
     conflictMeta\<lparr>returnType := TPtr TConn, webSocket := True, origin := ''http://localhost''\<rparr>"

definition conflictArg :: "string option \<Rightarrow> gvalue" where
  "conflictArg b = VPtr (Some (VStruct [(''Field'', VString ''x''), (''Body'', VBytes b)]))"

section \<open>Evaluation on examples\<close>

lemmas tag_defs =
  TagMethod_def TagPath_def TagFeature_def TagName_def TagOrigin_def TagOptions_def
  FeaturePath_def FeatureField_def FeatureQuery_def FeatureHeader_def FeatureBody_def
  OptionOmitEmpty_def

lemmas compile_defs =
  compileFunc_def andThen_def Get_def tag_defs in_list_def HttpMethods_def elementType_def
  processStructArg_def exported_def hasFields_def

lemmas synth_defs =
  buildRequestMeta_def newRequestMeta_def andThen_def applyStructArg_def applyPathIndex_def
  applyBodyField_def IsValid_def extractFieldValue_def exported_def Interface_def
  sprintInt_def decimal.simps Replace_def valuesAdd_def headerAdd_def

lemma compile_userStub:
  "compileFunc userStub [TString] [TBytes, TError] =
     Returns (Inr (RequestFunc (fieldType userStub) userMeta))"
  by (simp add: userStub_def userMeta_def compile_defs)

lemma compile_userByStruct:
  "compileFunc userByStruct [TPtr UserId] [TBytes, TError] =
     Returns (Inr (RequestFunc (fieldType userByStruct) userByStructMeta))"
  by (simp add: userByStruct_def userByStructMeta_def UserId_def compile_defs)

lemma compile_pathStub:
  "compileFunc pathStub [TPtr TestArg] [TInterface, TError] =
     Returns (Inr (RequestFunc (fieldType pathStub) pathMeta))"
  by (simp add: pathStub_def pathMeta_def TestArg_def compile_defs)

lemma compile_indexStub:
  "compileFunc indexStub [TString, TString, TString] [TInterface, TError] =
     Returns (Inr (RequestFunc (fieldType indexStub) indexMeta))"
  by (simp add: indexStub_def indexMeta_def compile_defs numeral_3_eq_3)

lemma synth_pathMeta:
  "buildRequestMeta L pathMeta [VPtr (Some (VStruct [(''Id'', VInt 1234)]))] =
     Returns (Inr ((newRequestMeta pathMeta)\<lparr>rpath := ''/pre/1234/post''\<rparr>))"
  by (simp add: pathMeta_def synth_defs)

lemma synth_indexMeta:
  "buildRequestMeta L indexMeta [VString ''a'', VString ''b'', VString ''c''] =
     Returns (Inr ((newRequestMeta indexMeta)\<lparr>rpath := ''/a/c/b''\<rparr>))"
  by (simp add: indexMeta_def synth_defs numeral_3_eq_3)

text \<open>
  C8. The template \<^verbatim>\<open>/pre/{id}/post\<close> with a path-role field named \<^verbatim>\<open>id\<close> holding 1234
  resolves to \<^verbatim>\<open>/pre/1234/post\<close>, and the template \<^verbatim>\<open>/{0}/{2}/{1}\<close> with the scalar
  arguments a, b, c in call order resolves to \<^verbatim>\<open>/a/c/b\<close>: each stub compiles to its
  descriptor, and synthesis on the descriptor and the arguments yields the request
  description with that path, no query, no header and no body.
\<close>

theorem path_resolution:
  "compileFunc pathStub [TPtr TestArg] [TInterface, TError] =
     Returns (Inr (RequestFunc (fieldType pathStub) pathMeta)) \<and>
   buildRequestMeta L pathMeta [VPtr (Some (VStruct [(''Id'', VInt 1234)]))] =
     Returns (Inr \<lparr>rpath = ''/pre/1234/post'', rmethod = ''GET'', rquery = Map.empty,
                   rfields = Map.empty, rheaders = Map.empty, rbody = None\<rparr>) \<and>
   compileFunc indexStub [TString, TString, TString] [TInterface, TError] =
     Returns (Inr (RequestFunc (fieldType indexStub) indexMeta)) \<and>
   buildRequestMeta L indexMeta [VString ''a'', VString ''b'', VString ''c''] =
     Returns (Inr \<lparr>rpath = ''/a/c/b'', rmethod = ''GET'', rquery = Map.empty,
                   rfields = Map.empty, rheaders = Map.empty, rbody = None\<rparr>)"
proof -
  have "newRequestMeta pathMeta\<lparr>rpath := ''/pre/1234/post''\<rparr> =
        \<lparr>rpath = ''/pre/1234/post'', rmethod = ''GET'', rquery = Map.empty,
         rfields = Map.empty, rheaders = Map.empty, rbody = None\<rparr>"
    by (simp add: newRequestMeta_def pathMeta_def)
  moreover have "newRequestMeta indexMeta\<lparr>rpath := ''/a/c/b''\<rparr> =
        \<lparr>rpath = ''/a/c/b'', rmethod = ''GET'', rquery = Map.empty,
         rfields = Map.empty, rheaders = Map.empty, rbody = None\<rparr>"
    by (simp add: newRequestMeta_def indexMeta_def)
  ultimately show ?thesis
    using compile_pathStub compile_indexStub synth_pathMeta[of L] synth_indexMeta[of L]
    by simp
qed

section \<open>Init over the fields of the service\<close>

lemma isFuncField_iff: "isFuncField f \<longleftrightarrow> (\<exists>ins outs. fieldType f = TFunc ins outs)"
  unfolding isFuncField_def by (cases "fieldType f") auto

lemma Init_nonfunc:
  "\<not> isFuncField f \<Longrightarrow> Init (f # fs) = andThen (Init fs) (\<lambda>(e, fs'). Returns (e, f # fs'))"
  unfolding isFuncField_def by (cases "fieldType f") auto

lemma Init_func:
  "fieldType f = TFunc ins outs \<Longrightarrow>
   Init (f # fs) =
     andThen (compileFunc f ins outs) (\<lambda>r.
       case r of
         Inl err \<Rightarrow> Returns (Some err, f # fs)
       | Inr fn \<Rightarrow> andThen (Init fs) (\<lambda>(e, fs'). Returns (e, f\<lparr>fieldValue := fn\<rparr> # fs')))"
  by simp

declare Init.simps(2) [simp del]

lemma compileFunc_Inr_bound:
  "compileFunc f ins outs = Returns (Inr fn) \<Longrightarrow> bound (g\<lparr>fieldValue := fn\<rparr>)"
  by (auto simp: compileFunc_def andThen_def Let_def bound_def
      split: if_splits sum.splits outcome.splits)

lemma Init_append_ok:
  "Init pre = Returns (None, pre') \<Longrightarrow>
   Init (pre @ rest) = andThen (Init rest) (\<lambda>(e, r). Returns (e, pre' @ r))"
proof (induction pre arbitrary: pre')
  case Nil
  then show ?case by (simp add: andThen_def split: outcome.splits)
next
  case (Cons f pre)
  show ?case
  proof (cases "isFuncField f")
    case True
    then obtain ins outs where t: "fieldType f = TFunc ins outs"
      by (auto simp: isFuncField_iff)
    with Cons.prems obtain fn p' where
      c: "compileFunc f ins outs = Returns (Inr fn)" and p: "Init pre = Returns (None, p')"
      and pre': "pre' = f\<lparr>fieldValue := fn\<rparr> # p'"
      by (auto simp: Init_func andThen_def split: outcome.splits sum.splits)
    from Cons.IH[OF p] c pre' show ?thesis
      by (simp add: Init_func[OF t] andThen_def split: outcome.splits)
  next
    case False
    with Cons.prems obtain p' where p: "Init pre = Returns (None, p')" and pre': "pre' = f # p'"
      by (auto simp: Init_nonfunc andThen_def split: outcome.splits)
    from Cons.IH[OF p] pre' show ?thesis
      by (simp add: Init_nonfunc[OF False] andThen_def split: outcome.splits)
  qed
qed

lemma Init_stops_at:
  assumes "Init pre = Returns (None, pre')"
    and "fieldType f = TFunc ins outs"
    and "compileFunc f ins outs = Returns (Inl err)"
  shows "Init (pre @ f # post) = Returns (Some err, pre' @ f # post)"
  using assms(3) by (simp add: Init_append_ok[OF assms(1)] Init_func[OF assms(2)] andThen_def)

lemma Init_ok_bound:
  "Init fs = Returns (None, fs') \<Longrightarrow>
   length fs' = length fs \<and> (\<forall>i<length fs. isFuncField (fs ! i) \<longrightarrow> bound (fs' ! i))"
proof (induction fs arbitrary: fs')
  case Nil
  then show ?case by simp
next
  case (Cons f fs)
  show ?case
  proof (cases "isFuncField f")
    case True
    then obtain ins outs where t: "fieldType f = TFunc ins outs"
      by (auto simp: isFuncField_iff)
    with Cons.prems obtain fn p' where
      c: "compileFunc f ins outs = Returns (Inr fn)" and p: "Init fs = Returns (None, p')"
      and fs': "fs' = f\<lparr>fieldValue := fn\<rparr> # p'"
      by (auto simp: Init_func andThen_def split: outcome.splits sum.splits)
    from Cons.IH[OF p] compileFunc_Inr_bound[OF c] fs' show ?thesis
      by (auto simp: nth_Cons split: nat.splits)
  next
    case False
    with Cons.prems obtain p' where p: "Init fs = Returns (None, p')" and fs': "fs' = f # p'"
      by (auto simp: Init_nonfunc andThen_def split: outcome.splits)
    from Cons.IH[OF p] fs' False show ?thesis
      by (auto simp: nth_Cons split: nat.splits)
  qed
qed

lemma Init_keeps_nonfunc:
  "Init fs = Returns (e, fs') \<Longrightarrow>
   length fs' = length fs \<and> (\<forall>i<length fs. \<not> isFuncField (fs ! i) \<longrightarrow> fs' ! i = fs ! i)"
proof (induction fs arbitrary: e fs')
  case Nil
  then show ?case by simp
next
  case (Cons f fs)
  show ?case
  proof (cases "isFuncField f")
    case True
    then obtain ins outs where t: "fieldType f = TFunc ins outs"
      by (auto simp: isFuncField_iff)
    from Cons.prems t consider
      (stop) "fs' = f # fs"
      | (go) fn p' where "Init fs = Returns (e, p')" "fs' = f\<lparr>fieldValue := fn\<rparr> # p'"
      by (auto simp: Init_func andThen_def split: outcome.splits sum.splits)
    then show ?thesis
    proof cases
      case stop
      then show ?thesis by simp
    next
      case go
      from Cons.IH[OF go(1)] go(2) True show ?thesis
        by (auto simp: nth_Cons split: nat.splits)
    qed
  next
    case False
    with Cons.prems obtain p' where p: "Init fs = Returns (e, p')" and fs': "fs' = f # p'"
      by (auto simp: Init_nonfunc andThen_def split: outcome.splits)
    from Cons.IH[OF p] fs' show ?thesis
      by (auto simp: nth_Cons split: nat.splits)
  qed
qed

lemma errorOf_Init_filter:
  "errorOf (Init fs) = errorOf (Init (filter isFuncField fs))"
proof (induction fs)
  case Nil
  then show ?case by simp
next
  case (Cons f fs)
  show ?case
  proof (cases "isFuncField f")
    case True
    then obtain ins outs where t: "fieldType f = TFunc ins outs"
      by (auto simp: isFuncField_iff)
    from Cons.IH True show ?thesis
      by (auto simp: Init_func[OF t] errorOf_def andThen_def split: outcome.splits sum.splits)
  next
    case False
    from Cons.IH show ?thesis
      by (auto simp: False Init_nonfunc[OF False] errorOf_def andThen_def split: outcome.splits)
  qed
qed

lemma compile_bogusStub:
  "compileFunc bogusStub [] [TInterface, TError] = Returns (Inl (errUnsupportedMethod ''BOGUS''))"
  by (simp add: bogusStub_def compile_defs)

lemma compile_callStub:
  "compileFunc callStub [] [TInterface, TError] =
     Returns (Inr (RequestFunc (fieldType callStub) callMeta))"
  by (simp add: callStub_def callMeta_def compile_defs)

lemma Init_userStub:
  "Init [userStub] =
     Returns (None, [userStub\<lparr>fieldValue := RequestFunc (fieldType userStub) userMeta\<rparr>])"
proof -
  have "fieldType userStub = TFunc [TString] [TBytes, TError]"
    by (simp add: userStub_def)
  from Init_func[OF this, of "[]"] compile_userStub show ?thesis
    by (simp add: andThen_def)
qed

text \<open>
  C2, as stated, fails: on the service of a valid stub followed by a stub with the method
  BOGUS, \<^verbatim>\<open>Init\<close> returns the error and leaves the first stub bound, so the service is
  not as it was before.
\<close>

theorem init_not_atomic:
  "Init twoStubs =
     Returns (Some (errUnsupportedMethod ''BOGUS''),
              [userStub\<lparr>fieldValue := RequestFunc (fieldType userStub) userMeta\<rparr>, bogusStub]) \<and>
   [userStub\<lparr>fieldValue := RequestFunc (fieldType userStub) userMeta\<rparr>, bogusStub] \<noteq> twoStubs \<and>
   bound (userStub\<lparr>fieldValue := RequestFunc (fieldType userStub) userMeta\<rparr>) \<and>
   \<not> bound userStub"
proof -
  have t: "fieldType bogusStub = TFunc [] [TInterface, TError]"
    by (simp add: bogusStub_def)
  from Init_stops_at[OF Init_userStub t compile_bogusStub, of "[]"]
  have "Init twoStubs =
     Returns (Some (errUnsupportedMethod ''BOGUS''),
              [userStub\<lparr>fieldValue := RequestFunc (fieldType userStub) userMeta\<rparr>, bogusStub])"
    by (simp add: twoStubs_def)
  moreover have "userStub\<lparr>fieldValue := RequestFunc (fieldType userStub) userMeta\<rparr> \<noteq> userStub"
    by (simp add: userStub_def)
  ultimately show ?thesis
    by (simp add: twoStubs_def bound_def userStub_def)
qed

text \<open>
  C2, amended. \<^verbatim>\<open>Init\<close> stops at the first func field whose declaration fails validation
  and returns that error. The failing field and the fields after it are left as they
  were; of the fields before it, every func field is bound to its invoker and every
  other field is unchanged.
\<close>

theorem init_stops_at_first_error:
  assumes "Init pre = Returns (None, pre')"
    and "fieldType f = TFunc ins outs"
    and "compileFunc f ins outs = Returns (Inl err)"
  shows "Init (pre @ f # post) = Returns (Some err, pre' @ f # post) \<and>
         length pre' = length pre \<and>
         (\<forall>i<length pre. (isFuncField (pre ! i) \<longrightarrow> bound (pre' ! i)) \<and>
                          (\<not> isFuncField (pre ! i) \<longrightarrow> pre' ! i = pre ! i))"
  using Init_stops_at[OF assms] Init_ok_bound[OF assms(1)] Init_keeps_nonfunc[OF assms(1)]
  by simp

theorem init_stops_at_first_error_witness:
  "Init [userStub] =
     Returns (None, [userStub\<lparr>fieldValue := RequestFunc (fieldType userStub) userMeta\<rparr>]) \<and>
   fieldType bogusStub = TFunc [] [TInterface, TError] \<and>
   compileFunc bogusStub [] [TInterface, TError] = Returns (Inl (errUnsupportedMethod ''BOGUS'')) \<and>
   Init ([userStub] @ bogusStub # [callStub]) =
     Returns (Some (errUnsupportedMethod ''BOGUS''),
              [userStub\<lparr>fieldValue := RequestFunc (fieldType userStub) userMeta\<rparr>] @
              bogusStub # [callStub]) \<and>
   bound ([userStub\<lparr>fieldValue := RequestFunc (fieldType userStub) userMeta\<rparr>] ! 0)"
proof -
  have t: "fieldType bogusStub = TFunc [] [TInterface, TError]"
    by (simp add: bogusStub_def)
  have f: "isFuncField ([userStub] ! 0)"
    by (simp add: isFuncField_def userStub_def)
  from init_stops_at_first_error[OF Init_userStub t compile_bogusStub, of "[callStub]"] f
  show ?thesis
    using Init_userStub t compile_bogusStub by simp
qed

text \<open>
  C10. \<^verbatim>\<open>Init\<close> skips every field of the service that is not of func type: whenever
  \<^verbatim>\<open>Init\<close> returns, with or without an error, such a field is as it was; and the error
  that \<^verbatim>\<open>Init\<close> returns is the one it returns on the func fields alone, so the other
  fields cause no error and do not prevent success.
\<close>

theorem init_skips_non_func_fields:
  "(\<forall>e svc'. Init svc = Returns (e, svc') \<longrightarrow>
      length svc' = length svc \<and>
      (\<forall>i<length svc. \<not> isFuncField (svc ! i) \<longrightarrow> svc' ! i = svc ! i)) \<and>
   errorOf (Init svc) = errorOf (Init (filter isFuncField svc))"
  using Init_keeps_nonfunc[of svc] errorOf_Init_filter[of svc] by blast

theorem init_skips_non_func_fields_witness:
  "Init [idField, callStub] =
     Returns (None, [idField, callStub\<lparr>fieldValue := RequestFunc (fieldType callStub) callMeta\<rparr>]) \<and>
   \<not> isFuncField ([idField, callStub] ! 0) \<and>
   [idField, callStub\<lparr>fieldValue := RequestFunc (fieldType callStub) callMeta\<rparr>] ! 0 =
     [idField, callStub] ! 0 \<and>
   errorOf (Init [idField, callStub]) = errorOf (Init [callStub]) \<and>
   errorOf (Init [callStub]) = Returns None"
proof -
  have t: "fieldType callStub = TFunc [] [TInterface, TError]"
    by (simp add: callStub_def)
  have n: "\<not> isFuncField idField"
    by (simp add: isFuncField_def idField_def)
  have c: "Init [callStub] =
      Returns (None, [callStub\<lparr>fieldValue := RequestFunc (fieldType callStub) callMeta\<rparr>])"
    using Init_func[OF t, of "[]"] compile_callStub by (simp add: andThen_def)
  have i: "Init [idField, callStub] =
     Returns (None, [idField, callStub\<lparr>fieldValue := RequestFunc (fieldType callStub) callMeta\<rparr>])"
    using Init_nonfunc[OF n, of "[callStub]"] c by (simp add: andThen_def)
  have fl: "filter isFuncField [idField, callStub] = [callStub]"
    using n t by (simp add: isFuncField_iff)
  from init_skips_non_func_fields[of "[idField, callStub]"] i c n fl show ?thesis
    by (simp add: errorOf_def andThen_def)
qed

section \<open>More than one body field\<close>

lemma processFields_body_step:
  assumes "isBodyField fd"
  shows "\<exists>a. processFields (fd # rest) sm =
           (if bodyField sm \<noteq> None then Inl errOneBody
            else processFields rest (sm\<lparr>bodyField := Some a\<rparr>))"
proof -
  obtain fname ftype tag where fd: "fd = (fname, ftype, tag)" by (cases fd) auto
  from assms show ?thesis
    by (auto simp: fd isBodyField_def Let_def tag_defs)
qed

lemma processFields_other_step:
  assumes "\<not> isBodyField fd"
  shows "\<exists>sm1. bodyField sm1 = bodyField sm \<and> processFields (fd # rest) sm = processFields rest sm1"
proof -
  obtain fname ftype tag where fd: "fd = (fname, ftype, tag)" by (cases fd) auto
  let ?goal = "\<exists>sm1. bodyField sm1 = bodyField sm \<and>
     processFields ((fname, ftype, tag) # rest) sm = processFields rest sm1"
  have skip: "processFields ((fname, ftype, tag) # rest) sm = processFields rest sm \<Longrightarrow> ?goal"
    by blast
  from assms have nb: "TKind ftype = KFunc \<or> Get tag TagFeature \<noteq> FeatureBody"
    by (simp add: fd isBodyField_def)
  have ?goal
  proof (cases "TKind ftype = KFunc \<or> Get tag TagFeature = []")
    case True
    then show ?thesis by (intro skip) (auto simp: Let_def)
  next
    case False
    with nb have f: "TKind ftype \<noteq> KFunc" "Get tag TagFeature \<noteq> []" "Get tag TagFeature \<noteq> FeatureBody"
      by auto
    consider (p) "Get tag TagFeature = FeaturePath" | (f) "Get tag TagFeature = FeatureField"
      | (q) "Get tag TagFeature = FeatureQuery" | (h) "Get tag TagFeature = FeatureHeader"
      | (o) "Get tag TagFeature \<notin> {FeaturePath, FeatureField, FeatureQuery, FeatureHeader}"
      by auto
    then show ?thesis
    proof cases
      case p
      show ?thesis
        by (rule exI[of _ "sm\<lparr>pathFields := AList.update fname \<lparr>Name = (if Get tag TagName = [] then fname else Get tag TagName),
                     OmitEmpty = (OptionOmitEmpty \<in> set (Split (Get tag TagOptions) CHR '',''))\<rparr> (pathFields sm)\<rparr>"])
          (use f p in \<open>simp add: Let_def\<close>)
    next
      case f
      show ?thesis
        by (rule exI[of _ "sm\<lparr>formFields := AList.update fname \<lparr>Name = (if Get tag TagName = [] then fname else Get tag TagName),
                     OmitEmpty = (OptionOmitEmpty \<in> set (Split (Get tag TagOptions) CHR '',''))\<rparr> (formFields sm)\<rparr>"])
          (use False f in \<open>simp add: Let_def tag_defs\<close>)
    next
      case q
      show ?thesis
        by (rule exI[of _ "sm\<lparr>queryFields := AList.update fname \<lparr>Name = (if Get tag TagName = [] then fname else Get tag TagName),
                     OmitEmpty = (OptionOmitEmpty \<in> set (Split (Get tag TagOptions) CHR '',''))\<rparr> (queryFields sm)\<rparr>"])
          (use False q in \<open>simp add: Let_def tag_defs\<close>)
    next
      case h
      show ?thesis
        by (rule exI[of _ "sm\<lparr>headerFields := AList.update fname \<lparr>Name = (if Get tag TagName = [] then fname else Get tag TagName),
                     OmitEmpty = (OptionOmitEmpty \<in> set (Split (Get tag TagOptions) CHR '',''))\<rparr> (headerFields sm)\<rparr>"])
          (use False h in \<open>simp add: Let_def tag_defs\<close>)
    next
      case o
      with f show ?thesis by (intro skip) (auto simp: Let_def)
    qed
  qed
  then show ?thesis by (simp add: fd)
qed

lemma processFields_error: "processFields fs sm = Inl e \<Longrightarrow> e = errOneBody"
proof (induction fs arbitrary: sm)
  case Nil
  then show ?case by simp
next
  case (Cons fd fs)
  show ?case
  proof (cases "isBodyField fd")
    case True
    from processFields_body_step[OF True, of fs sm] Cons show ?thesis
      by (auto split: if_splits)
  next
    case False
    from processFields_other_step[OF False, of sm fs] Cons show ?thesis
      by auto
  qed
qed

lemma processFields_count:
  "processFields fs sm = Inr sm' \<Longrightarrow> bodySet sm + length (filter isBodyField fs) = bodySet sm'"
proof (induction fs arbitrary: sm)
  case Nil
  then show ?case by simp
next
  case (Cons fd fs)
  show ?case
  proof (cases "isBodyField fd")
    case True
    from processFields_body_step[OF True, of fs sm] obtain a where
      step: "processFields (fd # fs) sm =
           (if bodyField sm \<noteq> None then Inl errOneBody
            else processFields fs (sm\<lparr>bodyField := Some a\<rparr>))" by blast
    with Cons.prems have none: "bodyField sm = None"
      and rest: "processFields fs (sm\<lparr>bodyField := Some a\<rparr>) = Inr sm'"
      by (auto split: if_splits)
    from Cons.IH[OF rest] none True show ?thesis
      by (simp add: bodySet_def)
  next
    case False
    from processFields_other_step[OF False, of sm fs] obtain sm1 where
      sm1: "bodyField sm1 = bodyField sm" "processFields (fd # fs) sm = processFields fs sm1"
      by blast
    with Cons.prems have "processFields fs sm1 = Inr sm'" by simp
    from Cons.IH[OF this] sm1(1) False show ?thesis
      by (simp add: bodySet_def)
  qed
qed

lemma processStructArg_error: "processStructArg t = Inl e \<Longrightarrow> e = errOneBody"
  unfolding processStructArg_def by (rule processFields_error)

lemma processStructArg_count:
  "processStructArg t = Inr sm \<Longrightarrow> length (filter isBodyField (structFields t)) = bodySet sm"
  unfolding processStructArg_def by (drule processFields_count) (simp add: bodySet_def)

lemma compileArgs_error: "compileArgs ins i meta = Inl e \<Longrightarrow> e = errOneBody"
proof (induction ins arbitrary: i meta)
  case Nil
  then show ?case by simp
next
  case (Cons t ins)
  then show ?case
    by (auto simp: Let_def dest: processStructArg_error split: if_splits sum.splits)
qed

lemma compileArgs_count:
  "compileArgs ins i meta = Inr meta' \<Longrightarrow> bodyFlag meta + bodyFieldCount ins = bodyFlag meta'"
proof (induction ins arbitrary: i meta)
  case Nil
  then show ?case by (simp add: bodyFieldCount_def)
next
  case (Cons t ins)
  show ?case
  proof (cases "TKind (elementType t) = KStruct")
    case True
    with Cons.prems obtain sm where sm: "processStructArg (elementType t) = Inr sm"
      and nb: "\<not> (bodyField sm \<noteq> None \<and> hasBody meta)"
      and rest: "compileArgs ins (Suc i)
                    (meta\<lparr>hasBody := (if bodyField sm \<noteq> None then True else hasBody meta),
                          methodArgs := (methodArgs meta)
                            [i := \<lparr>isStruct = True, structMeta = Some sm\<rparr>]\<rparr>) = Inr meta'"
      by (auto simp: Let_def split: sum.splits if_splits)
    from Cons.IH[OF rest] processStructArg_count[OF sm] nb True show ?thesis
      by (auto simp: bodyFieldCount_def bodyFieldsOf_def bodyFlag_def bodySet_def split: if_splits)
  next
    case False
    with Cons.prems have rest: "compileArgs ins (Suc i)
             (meta\<lparr>methodArgs := (methodArgs meta)
                [i := (methodArgs meta ! i)\<lparr>isStruct := False\<rparr>]\<rparr>) = Inr meta'"
      by (simp add: Let_def)
    from Cons.IH[OF rest] False show ?thesis
      by (simp add: bodyFieldCount_def bodyFieldsOf_def bodyFlag_def)
  qed
qed

lemma compileArgs_two_bodies:
  assumes "2 \<le> bodyFieldCount ins"
  shows "compileArgs ins i meta = Inl errOneBody"
proof (cases "compileArgs ins i meta")
  case (Inl e)
  with compileArgs_error[OF Inl] show ?thesis by simp
next
  case (Inr meta')
  from compileArgs_count[OF Inr] assms have False
    by (simp add: bodyFlag_def split: if_splits)
  then show ?thesis ..
qed

lemma compileFunc_two_bodies:
  assumes "length outs = 2" and "outs ! 1 = TError"
    and "in_list (Get (fieldTag f) TagMethod) HttpMethods"
    and "2 \<le> bodyFieldCount ins"
  shows "compileFunc f ins outs = Returns (Inl errOneBody)"
  using assms(1-3) by (simp add: compileFunc_def Let_def compileArgs_two_bodies[OF assms(4)])

text \<open>
  C7. A func field that passes the checks made before its parameters are read (two
  results, the second of type \<^verbatim>\<open>error\<close>, a supported method) and whose parameters carry
  more than one body-role field, in one struct or over several, makes \<^verbatim>\<open>Init\<close> return
  the error "Only one body per request is supported."; \<^verbatim>\<open>Init\<close> reaches the field when
  the fields before it compile.
\<close>

theorem multiple_body_fields:
  assumes "Init pre = Returns (None, pre')"
    and "fieldType f = TFunc ins outs"
    and "length outs = 2" and "outs ! 1 = TError"
    and "in_list (Get (fieldTag f) TagMethod) HttpMethods"
    and "2 \<le> bodyFieldCount ins"
  shows "Init (pre @ f # post) = Returns (Some errOneBody, pre' @ f # post)"
  by (rule Init_stops_at[OF assms(1,2) compileFunc_two_bodies[OF assms(3-6)]])

theorem multiple_body_fields_witness:
  "bodyFieldCount [TPtr TwoBodyArg] = 2 \<and>
   Init [sameArgStub] = Returns (Some errOneBody, [sameArgStub]) \<and>
   bodyFieldCount [TPtr BodyArg, TPtr BodyArg] = 2 \<and>
   Init [diffArgsStub] = Returns (Some errOneBody, [diffArgsStub])"
proof -
  have i: "Init [] = Returns (None, [])" by simp
  have m: "in_list (Get (fieldTag sameArgStub) TagMethod) HttpMethods"
    "in_list (Get (fieldTag diffArgsStub) TagMethod) HttpMethods"
    by (simp_all add: sameArgStub_def diffArgsStub_def Get_def tag_defs in_list_def HttpMethods_def)
  have t: "fieldType sameArgStub = TFunc [TPtr TwoBodyArg] [TBytes, TError]"
    "fieldType diffArgsStub = TFunc [TPtr BodyArg, TPtr BodyArg] [TBytes, TError]"
    by (simp_all add: sameArgStub_def diffArgsStub_def)
  have c: "bodyFieldCount [TPtr TwoBodyArg] = 2" "bodyFieldCount [TPtr BodyArg, TPtr BodyArg] = 2"
    by (simp_all add: bodyFieldCount_def bodyFieldsOf_def elementType_def TwoBodyArg_def
        BodyArg_def isBodyField_def Get_def tag_defs)
  have "Init ([] @ sameArgStub # []) = Returns (Some errOneBody, [] @ sameArgStub # [])"
    by (rule multiple_body_fields[OF i t(1)]) (simp_all add: m c)
  moreover
  have "Init ([] @ diffArgsStub # []) = Returns (Some errOneBody, [] @ diffArgsStub # [])"
    by (rule multiple_body_fields[OF i t(2)]) (simp_all add: m c)
  ultimately show ?thesis using c by simp
qed

section \<open>The order in which the role maps are visited\<close>

lemma fieldAction_panics: "fieldAction L v e = Panics x \<Longrightarrow> x = ReflectPanic"
  by (cases v) (auto simp: fieldAction_def andThen_def extractFieldValue_def Interface_def
      split: if_splits outcome.splits)

lemma andThen_Panics [simp]: "andThen (Panics x) f = Panics x"
  by (simp add: andThen_def)

lemma andThen_Returns [simp]: "andThen (Returns a) f = f a"
  by (simp add: andThen_def)

lemma applyAdderFields_Cons:
  "applyAdderFields L v add adder (e # nameMap) =
     andThen (adderStep L v add e (Returns adder)) (\<lambda>a. applyAdderFields L v add a nameMap)"
  by (cases e) (auto simp: adderStep_def fieldAction_def andThen_def split: outcome.splits option.splits)

lemma fold_adderStep_Panics: "fold (adderStep L v add) nameMap (Panics x) = Panics x"
  by (induction nameMap) (simp_all add: adderStep_def)

lemma applyAdderFields_fold:
  "applyAdderFields L v add adder nameMap = fold (adderStep L v add) nameMap (Returns adder)"
proof (induction nameMap arbitrary: adder)
  case Nil
  then show ?case by simp
next
  case (Cons e nameMap)
  show ?case
  proof (cases "adderStep L v add e (Returns adder)")
    case (Returns a)
    with Cons.IH[of a] show ?thesis by (simp add: applyAdderFields_Cons)
  next
    case (Panics x)
    then show ?thesis by (simp add: applyAdderFields_Cons fold_adderStep_Panics)
  qed
qed

lemma valuesAdd_commute:
  "k \<noteq> k' \<Longrightarrow> valuesAdd k s (valuesAdd k' s' m) = valuesAdd k' s' (valuesAdd k s m)"
  by (auto simp: valuesAdd_def fun_upd_twist)

lemma adderStep_commute:
  assumes "e = e' \<or> g (Name (snd e)) \<noteq> g (Name (snd e'))"
  shows "adderStep L v (\<lambda>k. valuesAdd (g k)) e \<circ> adderStep L v (\<lambda>k. valuesAdd (g k)) e' =
         adderStep L v (\<lambda>k. valuesAdd (g k)) e' \<circ> adderStep L v (\<lambda>k. valuesAdd (g k)) e"
proof (cases "e = e'")
  case True
  then show ?thesis by simp
next
  case False
  with assms have ne: "g (Name (snd e)) \<noteq> g (Name (snd e'))" by simp
  show ?thesis
  proof (rule ext)
    fix r :: "values outcome"
    show "(adderStep L v (\<lambda>k. valuesAdd (g k)) e \<circ> adderStep L v (\<lambda>k. valuesAdd (g k)) e') r =
          (adderStep L v (\<lambda>k. valuesAdd (g k)) e' \<circ> adderStep L v (\<lambda>k. valuesAdd (g k)) e) r"
    proof (cases r)
      case (Panics x)
      then show ?thesis by (simp add: adderStep_def)
    next
      case (Returns m)
      show ?thesis
      proof (cases "fieldAction L v e")
        case pe: (Panics x)
        show ?thesis
        proof (cases "fieldAction L v e'")
          case (Panics y)
          with pe fieldAction_panics[OF pe] fieldAction_panics[OF Panics] Returns show ?thesis
            by (simp add: adderStep_def)
        next
          case re': (Returns a')
          with pe Returns show ?thesis
            by (simp add: adderStep_def split: option.splits)
        qed
      next
        case re: (Returns a)
        show ?thesis
        proof (cases "fieldAction L v e'")
          case (Panics y)
          with re Returns show ?thesis
            by (simp add: adderStep_def split: option.splits)
        next
          case re': (Returns a')
          with re Returns valuesAdd_commute[OF ne] show ?thesis
            by (simp add: adderStep_def split: option.splits)
        qed
      qed
    qed
  qed
qed

lemma applyAdderFields_order:
  assumes "mset nameMap' = mset nameMap"
    and "distinct (map (\<lambda>e. g (Name (snd e))) nameMap)"
  shows "applyAdderFields L v (\<lambda>k. valuesAdd (g k)) adder nameMap' =
         applyAdderFields L v (\<lambda>k. valuesAdd (g k)) adder nameMap"
proof -
  have comm: "adderStep L v (\<lambda>k. valuesAdd (g k)) x \<circ> adderStep L v (\<lambda>k. valuesAdd (g k)) y =
              adderStep L v (\<lambda>k. valuesAdd (g k)) y \<circ> adderStep L v (\<lambda>k. valuesAdd (g k)) x"
    if "x \<in> set nameMap" "y \<in> set nameMap" for x y
  proof (rule adderStep_commute)
    from assms(2) that show "x = y \<or> g (Name (snd x)) \<noteq> g (Name (snd y))"
      by (auto simp: distinct_map inj_on_def)
  qed
  have "fold (adderStep L v (\<lambda>k. valuesAdd (g k))) nameMap = fold (adderStep L v (\<lambda>k. valuesAdd (g k))) nameMap'"
    by (rule fold_multiset_equiv) (use comm assms(1) in auto)
  then show ?thesis by (simp add: applyAdderFields_fold)
qed

lemma applyStructArg_order:
  assumes "sameRoleMaps sm sm'" and "distinctNames L sm"
  shows "applyStructArg L sm' arg rm = applyStructArg L sm arg rm"
proof -
  have q: "applyAdderFields L v valuesAdd a (queryFields sm') = applyAdderFields L v valuesAdd a (queryFields sm)" for v a
    using applyAdderFields_order[of "queryFields sm'" "queryFields sm" "\<lambda>k. k" L v a] assms
    by (simp add: sameRoleMaps_def distinctNames_def)
  have f: "applyAdderFields L v valuesAdd a (formFields sm') = applyAdderFields L v valuesAdd a (formFields sm)" for v a
    using applyAdderFields_order[of "formFields sm'" "formFields sm" "\<lambda>k. k" L v a] assms
    by (simp add: sameRoleMaps_def distinctNames_def)
  have h: "applyAdderFields L v (headerAdd L) a (headerFields sm') = applyAdderFields L v (headerAdd L) a (headerFields sm)" for v a
  proof -
    have "headerAdd L = (\<lambda>k. valuesAdd (CanonicalHeaderKey L k))"
      by (intro ext) (simp add: headerAdd_def)
    with applyAdderFields_order[of "headerFields sm'" "headerFields sm" "CanonicalHeaderKey L" L v a] assms
    show ?thesis by (simp add: sameRoleMaps_def distinctNames_def)
  qed
  from assms(1) have p: "pathFields sm' = pathFields sm" and b: "bodyField sm' = bodyField sm"
    by (simp_all add: sameRoleMaps_def)
  show ?thesis
    by (simp add: applyStructArg_def applyBodyField_def q f h p b)
qed

lemma walkArgs_order:
  assumes "sameDescriptor meta meta'"
    and "\<forall>a \<in> set (methodArgs meta). \<forall>sm. structMeta a = Some sm \<longrightarrow> distinctNames L sm"
  shows "walkArgs L meta' argIdx args rm = walkArgs L meta argIdx args rm"
proof (induction args arbitrary: argIdx rm)
  case Nil
  then show ?case by simp
next
  case (Cons arg args)
  from assms(1) have all2: "list_all2 sameArg (methodArgs meta) (methodArgs meta')"
    by (simp add: sameDescriptor_def)
  then have len: "length (methodArgs meta') = length (methodArgs meta)"
    by (simp add: list_all2_lengthD)
  show ?case
  proof (cases "argIdx < length (methodArgs meta)")
    case False
    with len show ?thesis by simp
  next
    case True
    with all2 have same: "sameArg (methodArgs meta ! argIdx) (methodArgs meta' ! argIdx)"
      by (simp add: list_all2_nthD)
    from True have mem: "methodArgs meta ! argIdx \<in> set (methodArgs meta)" by simp
    show ?thesis
    proof (cases "structMeta (methodArgs meta ! argIdx)")
      case None
      with same have "structMeta (methodArgs meta' ! argIdx) = None"
        by (simp add: sameArg_def)
      with None same True len Cons.IH show ?thesis
        by (simp add: sameArg_def Let_def)
    next
      case (Some sm)
      with same obtain sm' where sm': "structMeta (methodArgs meta' ! argIdx) = Some sm'"
        and rel: "sameRoleMaps sm sm'"
        by (auto simp: sameArg_def option_rel_Some1)
      from assms(2) mem Some have "distinctNames L sm" by blast
      moreover have "walkArgs L meta' (Suc argIdx) args = walkArgs L meta (Suc argIdx) args"
        by (rule ext) (rule Cons.IH)
      ultimately show ?thesis
        using applyStructArg_order[OF rel] Some sm' same True len Cons.IH
        by (simp add: sameArg_def Let_def)
    qed
  qed
qed

lemma buildRequestMeta_order:
  assumes "sameDescriptor meta meta'"
    and "\<forall>a \<in> set (methodArgs meta). \<forall>sm. structMeta a = Some sm \<longrightarrow> distinctNames L sm"
  shows "buildRequestMeta L meta' args = buildRequestMeta L meta args"
proof -
  from assms(1) have "path meta' = path meta" "httpMethod meta' = httpMethod meta"
    by (simp_all add: sameDescriptor_def)
  with walkArgs_order[OF assms] show ?thesis
    by (simp add: buildRequestMeta_def newRequestMeta_def)
qed

lemma synth_query_AB:
  "buildRequestMeta L (pairMeta [] [entry ''A'' ''x'', entry ''B'' ''x'']) [pairArg ''1'' ''2''] =
     Returns (Inr \<lparr>rpath = ''/{a}/{b}'', rmethod = ''GET'', rquery = [''x'' \<mapsto> [''1'', ''2'']],
                   rfields = Map.empty, rheaders = Map.empty, rbody = None\<rparr>)"
  by (simp add: pairMeta_def entry_def pairArg_def synth_defs)

lemma synth_query_BA:
  "buildRequestMeta L (pairMeta [] [entry ''B'' ''x'', entry ''A'' ''x'']) [pairArg ''1'' ''2''] =
     Returns (Inr \<lparr>rpath = ''/{a}/{b}'', rmethod = ''GET'', rquery = [''x'' \<mapsto> [''2'', ''1'']],
                   rfields = Map.empty, rheaders = Map.empty, rbody = None\<rparr>)"
  by (simp add: pairMeta_def entry_def pairArg_def synth_defs)

lemma synth_path_AB:
  "buildRequestMeta L (pairMeta [entry ''A'' ''a'', entry ''B'' ''b''] []) [pairArg ''{b}'' ''x''] =
     Returns (Inr \<lparr>rpath = ''/x/x'', rmethod = ''GET'', rquery = Map.empty,
                   rfields = Map.empty, rheaders = Map.empty, rbody = None\<rparr>)"
  by (simp add: pairMeta_def entry_def pairArg_def synth_defs)

lemma synth_path_BA:
  "buildRequestMeta L (pairMeta [entry ''B'' ''b'', entry ''A'' ''a''] []) [pairArg ''{b}'' ''x''] =
     Returns (Inr \<lparr>rpath = ''/{b}/x'', rmethod = ''GET'', rquery = Map.empty,
                   rfields = Map.empty, rheaders = Map.empty, rbody = None\<rparr>)"
  by (simp add: pairMeta_def entry_def pairArg_def synth_defs)

text \<open>
  C5, as stated, fails. Two query fields with the external name \<^verbatim>\<open>x\<close> form one Go map of
  two entries; visited in one order the values under \<^verbatim>\<open>x\<close> are 1, 2 and in the other
  2, 1. Two path fields, the first holding the text \<^verbatim>\<open>{b}\<close>, resolve \<^verbatim>\<open>/{a}/{b}\<close> to
  \<^verbatim>\<open>/x/x\<close> in one order and to \<^verbatim>\<open>/{b}/x\<close> in the other.
\<close>

theorem synthesis_depends_on_visit_order:
  "mset [entry ''A'' ''x'', entry ''B'' ''x''] = mset [entry ''B'' ''x'', entry ''A'' ''x''] \<and>
   buildRequestMeta exampleLib (pairMeta [] [entry ''A'' ''x'', entry ''B'' ''x''])
       [pairArg ''1'' ''2''] \<noteq>
   buildRequestMeta exampleLib (pairMeta [] [entry ''B'' ''x'', entry ''A'' ''x''])
       [pairArg ''1'' ''2''] \<and>
   mset [entry ''A'' ''a'', entry ''B'' ''b''] = mset [entry ''B'' ''b'', entry ''A'' ''a''] \<and>
   buildRequestMeta exampleLib (pairMeta [entry ''A'' ''a'', entry ''B'' ''b''] [])
       [pairArg ''{b}'' ''x''] \<noteq>
   buildRequestMeta exampleLib (pairMeta [entry ''B'' ''b'', entry ''A'' ''a''] [])
       [pairArg ''{b}'' ''x'']"
proof -
  have "[''x'' \<mapsto> [''1'', ''2'']] \<noteq> [''x'' \<mapsto> [''2'', ''1'']]"
  proof
    assume "[''x'' \<mapsto> [''1'', ''2'']] = [''x'' \<mapsto> [''2'', ''1'']]"
    then have "[''x'' \<mapsto> [''1'', ''2'']] ''x'' = [''x'' \<mapsto> [''2'', ''1'']] ''x''"
      by (rule arg_cong)
    then show False by simp
  qed
  then show ?thesis
    by (simp add: synth_query_AB synth_query_BA synth_path_AB synth_path_BA)
qed

text \<open>
  C5, amended. Request synthesis is a function of the descriptor, the arguments and the
  order in which the entries of each role map are visited. When, in every structured
  argument, the query fields have pairwise distinct external names, the form fields too,
  and the header fields have pairwise distinct canonical names, the result (a request
  description, the conflict error or a panic) does not depend on the order in which the
  query, form and header entries are visited, the path entries being visited in the same
  order.
\<close>

theorem synthesis_order_independent:
  assumes "sameDescriptor meta meta'"
    and "\<forall>a \<in> set (methodArgs meta). \<forall>sm. structMeta a = Some sm \<longrightarrow> distinctNames L sm"
  shows "buildRequestMeta L meta' args = buildRequestMeta L meta args"
  by (rule buildRequestMeta_order[OF assms])

theorem synthesis_order_independent_witness:
  "sameDescriptor (pairMeta [] [entry ''A'' ''x'', entry ''B'' ''y''])
                  (pairMeta [] [entry ''B'' ''y'', entry ''A'' ''x'']) \<and>
   distinctNames exampleLib
     \<lparr>pathFields = [], formFields = [], queryFields = [entry ''A'' ''x'', entry ''B'' ''y''],
      headerFields = [], bodyField = None\<rparr> \<and>
   buildRequestMeta exampleLib (pairMeta [] [entry ''B'' ''y'', entry ''A'' ''x''])
       [pairArg ''1'' ''2''] =
   buildRequestMeta exampleLib (pairMeta [] [entry ''A'' ''x'', entry ''B'' ''y''])
       [pairArg ''1'' ''2''] \<and>
   buildRequestMeta exampleLib (pairMeta [] [entry ''A'' ''x'', entry ''B'' ''y''])
       [pairArg ''1'' ''2''] =
     Returns (Inr \<lparr>rpath = ''/{a}/{b}'', rmethod = ''GET'',
                   rquery = [''x'' \<mapsto> [''1''], ''y'' \<mapsto> [''2'']],
                   rfields = Map.empty, rheaders = Map.empty, rbody = None\<rparr>)"
proof -
  have s: "sameDescriptor (pairMeta [] [entry ''A'' ''x'', entry ''B'' ''y''])
                  (pairMeta [] [entry ''B'' ''y'', entry ''A'' ''x''])"
    by (simp add: sameDescriptor_def sameArg_def sameRoleMaps_def pairMeta_def)
  have d: "\<forall>a \<in> set (methodArgs (pairMeta [] [entry ''A'' ''x'', entry ''B'' ''y''])).
      \<forall>sm. structMeta a = Some sm \<longrightarrow> distinctNames exampleLib sm"
    by (simp add: pairMeta_def distinctNames_def entry_def)
  have e: "buildRequestMeta exampleLib (pairMeta [] [entry ''A'' ''x'', entry ''B'' ''y''])
       [pairArg ''1'' ''2''] =
     Returns (Inr \<lparr>rpath = ''/{a}/{b}'', rmethod = ''GET'',
                   rquery = [''x'' \<mapsto> [''1''], ''y'' \<mapsto> [''2'']],
                   rfields = Map.empty, rheaders = Map.empty, rbody = None\<rparr>)"
    by (simp add: pairMeta_def entry_def pairArg_def synth_defs)
  have n: "distinctNames exampleLib
     \<lparr>pathFields = [], formFields = [], queryFields = [entry ''A'' ''x'', entry ''B'' ''y''],
      headerFields = [], bodyField = None\<rparr>"
    by (simp add: distinctNames_def entry_def)
  from synthesis_order_independent[OF s d, of "[pairArg ''1'' ''2'']"] s n e show ?thesis
    by simp
qed

section \<open>Form fields and a body at call time\<close>

lemma Zero_VBytes: "Zero t = VBytes b \<Longrightarrow> t = TBytes"
  by (cases t) auto

lemma returnsFromMakeFunc_Zero:
  "returnsFromMakeFunc meta (Zero (returnType meta), e) = Returns (Zero (returnType meta), e)"
  by (auto simp: returnsFromMakeFunc_def dest: Zero_VBytes split: gvalue.splits)

lemma makeRequestFunc_build_error:
  assumes "buildRequestMeta L meta args = Returns (Inl err)"
  shows "makeRequestFunc L c meta args = Some (Returns ((Zero (returnType meta), Some err), 0))"
  by (simp add: makeRequestFunc_def assms handleResponse_def returnsFromMakeFunc_Zero)

lemma buildRequestMeta_conflict:
  assumes "walkArgs L meta 0 args (newRequestMeta meta) = Returns rm"
    and "dom (rfields rm) \<noteq> {}" and "rbody rm \<noteq> None"
  shows "buildRequestMeta L meta args = Returns (Inl errBodyAndFields)"
  using assms by (simp add: buildRequestMeta_def)

lemma buildRequestMeta_form_body:
  assumes "walkArgs L meta 0 args (newRequestMeta meta) = Returns rm"
    and "dom (rfields rm) \<noteq> {}" and "rbody rm = None"
  shows "buildRequestMeta L meta args =
           Returns (Inr (rm\<lparr>rbody := Some (Encode L (rfields rm))\<rparr>))"
  using assms by (simp add: buildRequestMeta_def)

lemma walk_conflictMeta:
  "walkArgs L (conflictMeta\<lparr>returnType := t, webSocket := w, origin := og\<rparr>) 0 [conflictArg b]
     (newRequestMeta (conflictMeta\<lparr>returnType := t, webSocket := w, origin := og\<rparr>)) =
   Returns \<lparr>rpath = ''/post'', rmethod = ''POST'', rquery = Map.empty,
            rfields = [''field'' \<mapsto> [''x'']], rheaders = Map.empty, rbody = b\<rparr>"
  by (simp add: conflictMeta_def conflictArg_def synth_defs)

lemma conflictMeta_updates:
  "conflictMeta\<lparr>returnType := TBytes, webSocket := False, origin := []\<rparr> = conflictMeta"
  by (simp add: conflictMeta_def)

text \<open>
  C6. When the walk over the arguments of a call has collected at least one form-field
  pair and a body (the bytes of a body-role field that is not omitted; a nil byte slice
  is no body), synthesis fails with "Body and fields are incompatible." and the stub
  returns that error with the zero payload and without sending a request. When form-field
  pairs were collected and no body, the encoded pairs become the body of the request
  description.
\<close>

theorem form_fields_and_body:
  assumes "walkArgs L meta 0 args (newRequestMeta meta) = Returns rm"
    and "dom (rfields rm) \<noteq> {}"
  shows "(rbody rm \<noteq> None \<longrightarrow>
            buildRequestMeta L meta args = Returns (Inl errBodyAndFields) \<and>
            makeRequestFunc L c meta args =
              Some (Returns ((Zero (returnType meta), Some errBodyAndFields), 0))) \<and>
         (rbody rm = None \<longrightarrow>
            buildRequestMeta L meta args =
              Returns (Inr (rm\<lparr>rbody := Some (Encode L (rfields rm))\<rparr>)))"
proof (intro conjI impI)
  assume b: "rbody rm \<noteq> None"
  from buildRequestMeta_conflict[OF assms b]
  show e: "buildRequestMeta L meta args = Returns (Inl errBodyAndFields)" .
  from makeRequestFunc_build_error[OF e]
  show "makeRequestFunc L c meta args =
          Some (Returns ((Zero (returnType meta), Some errBodyAndFields), 0))" .
next
  assume "rbody rm = None"
  from buildRequestMeta_form_body[OF assms this]
  show "buildRequestMeta L meta args =
          Returns (Inr (rm\<lparr>rbody := Some (Encode L (rfields rm))\<rparr>))" .
qed

theorem form_fields_and_body_witness:
  "walkArgs exampleLib conflictMeta 0 [conflictArg (Some ''payload'')]
     (newRequestMeta conflictMeta) =
     Returns \<lparr>rpath = ''/post'', rmethod = ''POST'', rquery = Map.empty,
              rfields = [''field'' \<mapsto> [''x'']], rheaders = Map.empty,
              rbody = Some ''payload''\<rparr> \<and>
   dom [''field'' \<mapsto> [''x'']] \<noteq> {} \<and>
   buildRequestMeta exampleLib conflictMeta [conflictArg (Some ''payload'')] =
     Returns (Inl errBodyAndFields) \<and>
   makeRequestFunc exampleLib (retryClient 0) conflictMeta [conflictArg (Some ''payload'')] =
     Some (Returns ((VBytes None, Some errBodyAndFields), 0)) \<and>
   walkArgs exampleLib conflictMeta 0 [conflictArg None] (newRequestMeta conflictMeta) =
     Returns \<lparr>rpath = ''/post'', rmethod = ''POST'', rquery = Map.empty,
              rfields = [''field'' \<mapsto> [''x'']], rheaders = Map.empty, rbody = None\<rparr> \<and>
   buildRequestMeta exampleLib conflictMeta [conflictArg None] =
     Returns (Inr \<lparr>rpath = ''/post'', rmethod = ''POST'', rquery = Map.empty,
                   rfields = [''field'' \<mapsto> [''x'']], rheaders = Map.empty,
                   rbody = Some ''form''\<rparr>)"
proof -
  have w: "walkArgs exampleLib conflictMeta 0 [conflictArg b] (newRequestMeta conflictMeta) =
     Returns \<lparr>rpath = ''/post'', rmethod = ''POST'', rquery = Map.empty,
              rfields = [''field'' \<mapsto> [''x'']], rheaders = Map.empty, rbody = b\<rparr>" for b
    using walk_conflictMeta[where L = exampleLib and t = TBytes and w = False and og = "[]" and b = b]
    by (simp only: conflictMeta_updates)
  have d: "dom (rfields \<lparr>rpath = ''/post'', rmethod = ''POST'', rquery = Map.empty,
              rfields = [''field'' \<mapsto> [''x'']], rheaders = Map.empty, rbody = b\<rparr>) \<noteq> {}" for b
    by simp
  have z: "Zero (returnType conflictMeta) = VBytes None"
    by (simp add: conflictMeta_def)
  have n: "Encode exampleLib m = ''form''" for m
    by (simp add: exampleLib_def)
  from form_fields_and_body[OF w d, of "Some ''payload''" "retryClient 0"]
    form_fields_and_body[OF w d, of None "retryClient 0"]
  show ?thesis
    using w z n by simp
qed

text \<open>
  C9. For a websocket stub the error of synthesis is dropped: when the walk over the
  arguments has collected a form-field pair and a body, synthesis returns the conflict
  error with no request description, and the function made by \<^verbatim>\<open>makeWebSocketFunc\<close>
  reads the path of the absent description and panics; it returns no result pair.
\<close>

theorem websocket_drops_synthesis_error:
  assumes "walkArgs L meta 0 args (newRequestMeta meta) = Returns rm"
    and "dom (rfields rm) \<noteq> {}" and "rbody rm \<noteq> None"
  shows "buildRequestMeta L meta args = Returns (Inl errBodyAndFields) \<and>
         makeWebSocketFunc L c meta args = Panics NilDereference"
  using buildRequestMeta_conflict[OF assms] by (simp add: makeWebSocketFunc_def)

theorem websocket_drops_synthesis_error_witness:
  "walkArgs exampleLib wsConflictMeta 0 [conflictArg (Some ''payload'')]
     (newRequestMeta wsConflictMeta) =
     Returns \<lparr>rpath = ''/post'', rmethod = ''POST'', rquery = Map.empty,
              rfields = [''field'' \<mapsto> [''x'']], rheaders = Map.empty,
              rbody = Some ''payload''\<rparr> \<and>
   dom [''field'' \<mapsto> [''x'']] \<noteq> {} \<and>
   buildRequestMeta exampleLib wsConflictMeta [conflictArg (Some ''payload'')] =
     Returns (Inl errBodyAndFields) \<and>
   makeWebSocketFunc exampleLib (retryClient 0) wsConflictMeta [conflictArg (Some ''payload'')] =
     Panics NilDereference"
proof -
  have w: "walkArgs exampleLib wsConflictMeta 0 [conflictArg (Some ''payload'')]
     (newRequestMeta wsConflictMeta) =
     Returns \<lparr>rpath = ''/post'', rmethod = ''POST'', rquery = Map.empty,
              rfields = [''field'' \<mapsto> [''x'']], rheaders = Map.empty,
              rbody = Some ''payload''\<rparr>"
    unfolding wsConflictMeta_def by (rule walk_conflictMeta)
  have d: "dom (rfields \<lparr>rpath = ''/post'', rmethod = ''POST'', rquery = Map.empty,
              rfields = [''field'' \<mapsto> [''x'']], rheaders = Map.empty,
              rbody = Some ''payload''\<rparr>) \<noteq> {}"
    by simp
  have b: "rbody \<lparr>rpath = ''/post'', rmethod = ''POST'', rquery = Map.empty,
              rfields = [''field'' \<mapsto> [''x'']], rheaders = Map.empty,
              rbody = Some ''payload''\<rparr> \<noteq> None"
    by simp
  from websocket_drops_synthesis_error[OF w d b, of "retryClient 0"] show ?thesis
    using w by simp
qed

section \<open>Code that departs from the stated behaviour\<close>

lemma sendLoop_basic_never:
  assumes "sendLoop c meta req n = Some y"
  shows "(\<forall>k r. isl (httpClient c k r)) \<longrightarrow>
         (\<exists>r. retryHandler c = Some r \<and> Retry r = BasicRetry \<and>
              retryCount (handlerState r) < maxRetries (handlerState r)) \<longrightarrow> False"
  using assms
proof (induction rule: sendLoop.raw_induct[rotated 1, consumes 1])
  case (1 loop c meta req n y)
  show ?case
  proof (intro impI)
    assume fails: "\<forall>k r. isl (httpClient c k r)"
    assume "\<exists>r. retryHandler c = Some r \<and> Retry r = BasicRetry \<and>
              retryCount (handlerState r) < maxRetries (handlerState r)"
    then obtain r where r: "retryHandler c = Some r" "Retry r = BasicRetry"
        "retryCount (handlerState r) < maxRetries (handlerState r)" by blast
    from fails obtain err where err: "httpClient c n req = Inl err"
      by (metis isl_def)
    let ?c' = "c\<lparr>retryHandler := Some (r\<lparr>handlerState := handlerState r\<rparr>)\<rparr>"
    from 1(2) err r have next_call: "loop ?c' meta req (Suc n) = Some y"
      by (simp add: BasicRetry_def)
    from 1(1)[OF next_call] fails r show False
      by simp
  qed
qed

lemma sendLoop_retryClient_never:
  "sendLoop (retryClient (1 + int k)) meta req 0 = None"
proof (cases "sendLoop (retryClient (1 + int k)) meta req 0")
  case None
  then show ?thesis .
next
  case (Some y)
  from sendLoop_basic_never[OF Some] have False
    by (simp add: retryClient_def refusing_def NewBasicRetryHandler_def)
  then show ?thesis ..
qed

lemma baseUrl_retryClient: "baseUrl (retryClient n) = ''http://localhost''"
  by (simp add: retryClient_def)

lemma returnType_userMeta: "returnType userMeta = TBytes"
  by (simp add: userMeta_def)

lemma synth_userMeta:
  "buildRequestMeta L userMeta [VString s] =
     Returns (Inr ((newRequestMeta userMeta)\<lparr>rpath := Replace ''/user/{0}'' ''{0}'' s\<rparr>))"
  by (simp add: userMeta_def buildRequestMeta_def newRequestMeta_def andThen_def
      applyPathIndex_def Interface_def decimal.simps)

text \<open>
  C1 does not hold of the code. \<^verbatim>\<open>Retry\<close> of the basic handler compares a counter that
  nothing increments, so a handler made with a positive number of retries clears every
  failure: over a transport that fails at every send the call never returns. A handler
  made with 0 retries surfaces the first failure after one send.
\<close>

theorem basic_retry_never_surfaces:
  "makeRequestFunc exampleLib (retryClient (1 + int k)) userMeta [VString ''15''] = None \<and>
   makeRequestFunc exampleLib (retryClient 0) userMeta [VString ''15''] =
     Some (Returns ((VBytes None, Some ''connection refused''), 1))"
proof
  show "makeRequestFunc exampleLib (retryClient (1 + int k)) userMeta [VString ''15''] = None"
    by (simp add: makeRequestFunc_def synth_userMeta Replace_def exampleLib_def
        baseUrl_retryClient sendLoop_retryClient_never)
next
  have "sendLoop (retryClient 0) userMeta req 0 =
          Some ((VBytes None, Some ''connection refused''), 1)" for req
    by (subst sendLoop.simps)
       (simp add: retryClient_def refusing_def NewBasicRetryHandler_def BasicRetry_def
          handleResponse_def userMeta_def)
  then show "makeRequestFunc exampleLib (retryClient 0) userMeta [VString ''15''] =
     Some (Returns ((VBytes None, Some ''connection refused''), 1))"
    by (simp add: makeRequestFunc_def synth_userMeta Replace_def exampleLib_def
        baseUrl_retryClient returnsFromMakeFunc_def returnType_userMeta)
qed

lemma makeRequestFunc_new_request_error:
  assumes "buildRequestMeta L meta args = Returns (Inr rm)"
    and "NewRequest L (rmethod rm) (baseUrl c @ rpath rm) (rbody rm) = Inl err"
  shows "makeRequestFunc L c meta args = Some (Panics NilDereference)"
  using assms by (simp add: makeRequestFunc_def)

text \<open>
  C3 does not hold of the code. When \<^verbatim>\<open>http.NewRequest\<close> fails, as on the URL made from
  the argument \<^verbatim>\<open>%zz\<close>, the result of \<^verbatim>\<open>handleResponse\<close> is not returned and the nil
  request is dereferenced: the stub panics instead of returning the failure.
\<close>

theorem new_request_failure_panics:
  "makeRequestFunc exampleLib c userMeta [VString ''%zz''] = Some (Panics NilDereference)"
  by (simp add: makeRequestFunc_def synth_userMeta Replace_def exampleLib_def newRequestMeta_def)

text \<open>
  C4 does not hold of the code for the path role. \<^verbatim>\<open>applyPathFields\<close> tests the struct,
  not the field, for emptiness: a path field with \<^verbatim>\<open>omitempty\<close> holding 0 is substituted
  as \<^verbatim>\<open>0\<close>, where the query field with \<^verbatim>\<open>omitempty\<close> holding 0 of the same struct is
  left out.
\<close>

theorem omitempty_path_field_substituted:
  "compileFunc userByStruct [TPtr UserId] [TBytes, TError] =
     Returns (Inr (RequestFunc (fieldType userByStruct) userByStructMeta)) \<and>
   buildRequestMeta L userByStructMeta
       [VPtr (Some (VStruct [(''Id'', VInt 0), (''Page'', VInt 0)]))] =
     Returns (Inr \<lparr>rpath = ''/user/0'', rmethod = ''GET'', rquery = Map.empty,
                   rfields = Map.empty, rheaders = Map.empty, rbody = None\<rparr>)"
proof
  show "compileFunc userByStruct [TPtr UserId] [TBytes, TError] =
     Returns (Inr (RequestFunc (fieldType userByStruct) userByStructMeta))"
    by (rule compile_userByStruct)
next
  show "buildRequestMeta L userByStructMeta
       [VPtr (Some (VStruct [(''Id'', VInt 0), (''Page'', VInt 0)]))] =
     Returns (Inr \<lparr>rpath = ''/user/0'', rmethod = ''GET'', rquery = Map.empty,
                   rfields = Map.empty, rheaders = Map.empty, rbody = None\<rparr>)"
    by (simp add: userByStructMeta_def synth_defs)
qed

section \<open>Descriptors that pass Init\<close>

text \<open>
  A descriptor that \<^verbatim>\<open>Init\<close> accepts has no body argument together with a form argument,
  so synthesis on it never returns the conflict error: the check at call time is reached
  only on a descriptor built otherwise.
\<close>

lemma compileArgs_compiledArgs:
  "compileArgs ins i meta = Inr meta' \<Longrightarrow> compiledArgs meta \<Longrightarrow> compiledArgs meta'"
proof (induction ins arbitrary: i meta)
  case Nil
  then show ?case by simp
next
  case (Cons t ins)
  show ?case
  proof (cases "TKind (elementType t) = KStruct")
    case True
    with Cons.prems(1) obtain sm where sm: "processStructArg (elementType t) = Inr sm"
      and rest: "compileArgs ins (Suc i)
                    (meta\<lparr>hasBody := (if bodyField sm \<noteq> None then True else hasBody meta),
                          methodArgs := (methodArgs meta)
                            [i := \<lparr>isStruct = True, structMeta = Some sm\<rparr>]\<rparr>) = Inr meta'"
      by (auto simp: Let_def split: sum.splits if_splits)
    have "compiledArgs (meta\<lparr>hasBody := (if bodyField sm \<noteq> None then True else hasBody meta),
                          methodArgs := (methodArgs meta)
                            [i := \<lparr>isStruct = True, structMeta = Some sm\<rparr>]\<rparr>)"
      unfolding compiledArgs_def
    proof (intro ballI impI)
      fix a
      assume a: "a \<in> set (methodArgs (meta\<lparr>hasBody := (if bodyField sm \<noteq> None then True else hasBody meta),
                          methodArgs := (methodArgs meta)
                            [i := \<lparr>isStruct = True, structMeta = Some sm\<rparr>]\<rparr>))"
        and s: "isStruct a"
      from a have "a = \<lparr>isStruct = True, structMeta = Some sm\<rparr> \<or> a \<in> set (methodArgs meta)"
        using set_update_subset_insert[of "methodArgs meta" i] by auto
      then show "\<exists>sm'. structMeta a = Some sm' \<and>
             (bodyField sm' \<noteq> None \<longrightarrow>
              hasBody (meta\<lparr>hasBody := (if bodyField sm \<noteq> None then True else hasBody meta),
                          methodArgs := (methodArgs meta)
                            [i := \<lparr>isStruct = True, structMeta = Some sm\<rparr>]\<rparr>))"
        using Cons.prems(2) s by (auto simp: compiledArgs_def)
    qed
    from Cons.IH[OF rest this] show ?thesis .
  next
    case False
    with Cons.prems(1) have rest: "compileArgs ins (Suc i)
             (meta\<lparr>methodArgs := (methodArgs meta)
                [i := (methodArgs meta ! i)\<lparr>isStruct := False\<rparr>]\<rparr>) = Inr meta'"
      by (simp add: Let_def)
    have "compiledArgs (meta\<lparr>methodArgs := (methodArgs meta)
                [i := (methodArgs meta ! i)\<lparr>isStruct := False\<rparr>]\<rparr>)"
      unfolding compiledArgs_def
    proof (intro ballI impI)
      fix a
      assume a: "a \<in> set (methodArgs (meta\<lparr>methodArgs := (methodArgs meta)
                [i := (methodArgs meta ! i)\<lparr>isStruct := False\<rparr>]\<rparr>))"
        and s: "isStruct a"
      from a have "a = (methodArgs meta ! i)\<lparr>isStruct := False\<rparr> \<or> a \<in> set (methodArgs meta)"
        using set_update_subset_insert[of "methodArgs meta" i] by auto
      then show "\<exists>sm'. structMeta a = Some sm' \<and>
             (bodyField sm' \<noteq> None \<longrightarrow>
              hasBody (meta\<lparr>methodArgs := (methodArgs meta)
                [i := (methodArgs meta ! i)\<lparr>isStruct := False\<rparr>]\<rparr>))"
        using Cons.prems(2) s by (auto simp: compiledArgs_def)
    qed
    from Cons.IH[OF rest this] show ?thesis .
  qed
qed

lemma hasFieldsArgs_compiled:
  "(\<forall>a \<in> set as. isStruct a \<longrightarrow> structMeta a \<noteq> None) \<Longrightarrow>
   hasFieldsArgs as =
     Returns (\<exists>a \<in> set as. isStruct a \<and> (\<exists>sm. structMeta a = Some sm \<and> formFields sm \<noteq> []))"
  by (induction as) (auto split: option.splits)

lemma compileFunc_no_conflict:
  assumes "compileFunc f ins outs = Returns (Inr fn)"
    and "fn = RequestFunc t meta \<or> fn = WebSocketFunc t meta"
  shows "\<not> (bodyArgs meta \<and> formArgs meta)"
proof -
  let ?m0 = "\<lparr>returnType = outs ! 0,
                     methodArgs = replicate (length ins) \<lparr>isStruct = False, structMeta = None\<rparr>,
                     hasBody = False, webSocket = (outs ! 0 = TPtr TConn),
                     path = Get (fieldTag f) TagPath, httpMethod = Get (fieldTag f) TagMethod,
                     origin = (if outs ! 0 = TPtr TConn then Get (fieldTag f) TagOrigin else [])\<rparr>"
  from assms obtain m where c: "compileArgs ins 0 ?m0 = Inr m"
    and h: "(if hasBody m then hasFields m else Returns False) = Returns False"
    and m: "m = meta"
    by (auto simp: compileFunc_def Let_def andThen_def split: if_splits sum.splits outcome.splits)
  have "compiledArgs ?m0" by (simp add: compiledArgs_def)
  from compileArgs_compiledArgs[OF c this] have inv: "compiledArgs m" .
  then have "\<forall>a \<in> set (methodArgs m). isStruct a \<longrightarrow> structMeta a \<noteq> None"
    by (auto simp: compiledArgs_def)
  from hasFieldsArgs_compiled[OF this] have hf: "hasFields m = Returns (formArgs m)"
    by (simp add: hasFields_def formArgs_def)
  show ?thesis
  proof
    assume bf: "bodyArgs meta \<and> formArgs meta"
    with inv m have "hasBody m" by (auto simp: bodyArgs_def compiledArgs_def)
    with h hf bf m show False by simp
  qed
qed

lemma applyAdderFields_Nil_only:
  "applyAdderFields L v add adder nm = Returns a \<Longrightarrow> a \<noteq> adder \<Longrightarrow> nm \<noteq> []"
  by auto

lemma applyStructArg_sources:
  assumes "applyStructArg L sm arg rm0 = Returns rm"
  shows "(rbody rm \<noteq> None \<longrightarrow> rbody rm0 \<noteq> None \<or> bodyField sm \<noteq> None) \<and>
         (dom (rfields rm) \<noteq> {} \<longrightarrow> dom (rfields rm0) \<noteq> {} \<or> formFields sm \<noteq> [])"
proof -
  from assms obtain p q f h where
    f: "applyAdderFields L (elementValue arg) valuesAdd (rfields rm0) (formFields sm) = Returns f"
    and b: "applyBodyField sm (elementValue arg)
              (rm0\<lparr>rpath := p, rquery := q, rfields := f, rheaders := h\<rparr>) = Returns rm"
    by (auto simp: applyStructArg_def andThen_def Let_def split: outcome.splits)
  from b have rf: "rfields rm = f" and rb: "rbody rm \<noteq> None \<longrightarrow> rbody rm0 \<noteq> None \<or> bodyField sm \<noteq> None"
    by (auto simp: applyBodyField_def andThen_def split: option.splits outcome.splits if_splits)
  from f have "formFields sm = [] \<longrightarrow> f = rfields rm0" by auto
  with rf rb show ?thesis by auto
qed

lemma walkArgs_sources:
  "walkArgs L meta i args rm0 = Returns rm \<Longrightarrow>
   (rbody rm \<noteq> None \<longrightarrow> rbody rm0 \<noteq> None \<or> bodyArgs meta) \<and>
   (dom (rfields rm) \<noteq> {} \<longrightarrow> dom (rfields rm0) \<noteq> {} \<or> formArgs meta)"
proof (induction args arbitrary: i rm0)
  case Nil
  then show ?case by simp
next
  case (Cons arg args)
  from Cons.prems have lt: "i < length (methodArgs meta)"
    by (auto split: if_splits)
  then have mem: "methodArgs meta ! i \<in> set (methodArgs meta)" by simp
  show ?case
  proof (cases "isStruct (methodArgs meta ! i)")
    case False
    with Cons.prems lt obtain p where
      "walkArgs L meta (Suc i) args (rm0\<lparr>rpath := p\<rparr>) = Returns rm"
      by (auto simp: andThen_def Let_def split: outcome.splits)
    from Cons.IH[OF this] show ?thesis by simp
  next
    case True
    with Cons.prems lt obtain sm rm1 where sm: "structMeta (methodArgs meta ! i) = Some sm"
      and a: "applyStructArg L sm arg rm0 = Returns rm1"
      and w: "walkArgs L meta (Suc i) args rm1 = Returns rm"
      by (auto simp: andThen_def Let_def split: outcome.splits option.splits)
    from sm True mem have "bodyField sm \<noteq> None \<longrightarrow> bodyArgs meta"
      "formFields sm \<noteq> [] \<longrightarrow> formArgs meta"
      by (auto simp: bodyArgs_def formArgs_def)
    with applyStructArg_sources[OF a] Cons.IH[OF w] show ?thesis by blast
  qed
qed

lemma compiled_never_conflicts:
  assumes "compileFunc f ins outs = Returns (Inr fn)"
    and "fn = RequestFunc t meta \<or> fn = WebSocketFunc t meta"
  shows "buildRequestMeta L meta args \<noteq> Returns (Inl e)"
proof
  assume e: "buildRequestMeta L meta args = Returns (Inl e)"
  then obtain rm where w: "walkArgs L meta 0 args (newRequestMeta meta) = Returns rm"
    and c: "dom (rfields rm) \<noteq> {}" "rbody rm \<noteq> None"
    by (auto simp: buildRequestMeta_def andThen_def split: outcome.splits if_splits)
  from walkArgs_sources[OF w] c have "bodyArgs meta \<and> formArgs meta"
    by (simp add: newRequestMeta_def)
  with compileFunc_no_conflict[OF assms] show False by simp
qed

section \<open>What the siblings do\<close>

text \<open>
  \<^verbatim>\<open>handleResponse\<close> keeps the zero payload whenever it sets the failure, and
  \<^verbatim>\<open>applyAdderFields\<close> leaves out a field with \<^verbatim>\<open>omitempty\<close> whose value is empty.
\<close>

lemma handleResponse_failure_zero:
  "snd (handleResponse c meta resp err) \<noteq> None \<Longrightarrow>
   fst (handleResponse c meta resp err) = Zero (returnType meta)"
  by (auto simp: handleResponse_def Let_def split: option.splits sum.splits)

lemma applyAdderFields_omits_empty:
  assumes "OmitEmpty n" and "FieldByName v fn = Returns fv" and "isEmptyValue fv"
  shows "applyAdderFields L v add adder ((fn, n) # nameMap) =
         applyAdderFields L v add adder nameMap"
  using assms by (simp add: andThen_def)

end
